theory Spec2Isabelle
  imports Complex_Main
begin

section \<open>Numbers and arrays\<close>

text \<open>
  The integrator computes in \<^verbatim>\<open>double\<close>. Here a double is a real number: the development
  verifies the formulas the code evaluates, with exact arithmetic in place of rounding, and
  says nothing about NaN, infinities or signed zeros. Grid extents and loop counters are
  non-negative \<^verbatim>\<open>int\<close>s of the source, kept as naturals; the centred momenta, which may be
  negative, are integers. No grid is large enough for an \<^verbatim>\<open>int\<close> to wrap.

  An \<^verbatim>\<open>fftw_complex\<close> is a pair of doubles, and a pointer to an array of them is a function
  from the index to the cell, so that the model reads and writes exactly the cells the code
  addresses.
\<close>

type_synonym fftw_complex = "real \<times> real"

type_synonym complex_array = "nat \<Rightarrow> fftw_complex"

type_synonym double_array = "nat \<Rightarrow> real"

text \<open>The macros \<^verbatim>\<open>pow2\<close> and \<^verbatim>\<open>pow4\<close> of \<^verbatim>\<open>verlet.cu\<close>, textual and so usable at any type.\<close>

definition pow2 :: "'a::times \<Rightarrow> 'a" where
  "pow2 x = x * x"

definition pow4 :: "'a::times \<Rightarrow> 'a" where
  "pow4 x = x * x * x * x"

text \<open>
  The C library's \<^verbatim>\<open>pow\<close>, called by the source only with the scale factor as its base.
  On a positive base it is the real power; on other bases C yields infinities, NaN or
  integer powers, which lie outside this idealisation.
\<close>

definition pow :: "real \<Rightarrow> real \<Rightarrow> real" where
  "pow x y = x powr y"

text \<open>\<^verbatim>\<open>p[idx][c]\<close> as a read, and \<^verbatim>\<open>p[idx][c] = v\<close> as a write, for \<open>c\<close> in \<open>{0, 1}\<close>.\<close>

definition rd :: "complex_array \<Rightarrow> nat \<Rightarrow> nat \<Rightarrow> real" where
  "rd p idx c = (if c = 0 then fst (p idx) else snd (p idx))"

definition wr :: "complex_array \<Rightarrow> nat \<Rightarrow> nat \<Rightarrow> real \<Rightarrow> complex_array" where
  "wr p idx c v = p(idx := (if c = 0 then (v, snd (p idx)) else (fst (p idx), v)))"

section \<open>Model parameters\<close>

text \<open>
  The members of \<^verbatim>\<open>model_params<double>\<close> that \<^verbatim>\<open>verlet.cu\<close> reads. Its methods
  \<^verbatim>\<open>adoubledot\<close> and \<^verbatim>\<open>adoubledot_staggered\<close> are declared in a header that is not part of
  the sources at hand; they are parameters of the integrator below.
\<close>

record model_params =
  rescale_A :: real
  rescale_B :: real
  rescale_r :: real
  rescale_s :: real
  m_phi :: real
  m_chi :: real
  lambda_phi :: real
  lambda_chi :: real
  g :: real
  gamma_phi :: real
  gamma_chi :: real
  md_e_phi :: real
  md_e_chi :: real
  dp :: real

section \<open>The Klein-Gordon accelerations (\<^verbatim>\<open>verlet.cu\<close>, lines 42-80)\<close>

definition dphidotdt ::
  "real \<Rightarrow> real \<Rightarrow> real \<Rightarrow> real \<Rightarrow> real \<Rightarrow> real \<Rightarrow> real \<Rightarrow> real \<Rightarrow> real \<Rightarrow> real \<Rightarrow>
   model_params \<Rightarrow> real" where
  "dphidotdt phi chi chi2phi phi3 phi5 phi_md a_t adot_t addot_t mom2 mp =
     - pow a_t (- 2 * rescale_s mp - 2) * mom2 * phi +
     rescale_r mp * ((rescale_s mp - rescale_r mp + 2) * pow2 (adot_t / a_t) + addot_t / a_t) * phi -
     pow a_t (- 2 * rescale_s mp - 2 * rescale_r mp) / pow2 (rescale_B mp) * (
       (if md_e_phi mp \<noteq> 0 then pow a_t (2 * rescale_r mp) * phi_md
        else pow2 (m_phi mp) * pow a_t (2 * rescale_r mp) * phi) +
       lambda_phi mp / pow2 (rescale_A mp) * phi3 +
       pow2 (g mp / rescale_A mp) * chi2phi +
       gamma_phi mp / pow4 (rescale_A mp) * pow a_t (- 2 * rescale_r mp) * phi5)"

definition dchidotdt ::
  "real \<Rightarrow> real \<Rightarrow> real \<Rightarrow> real \<Rightarrow> real \<Rightarrow> real \<Rightarrow> real \<Rightarrow> real \<Rightarrow> real \<Rightarrow> real \<Rightarrow>
   model_params \<Rightarrow> real" where
  "dchidotdt phi chi phi2chi chi3 chi5 chi_md a_t adot_t addot_t mom2 mp =
     - pow a_t (- 2 * rescale_s mp - 2) * mom2 * chi +
     rescale_r mp * ((rescale_s mp - rescale_r mp + 2) * pow2 (adot_t / a_t) + addot_t / a_t) * chi -
     pow a_t (- 2 * rescale_s mp - 2 * rescale_r mp) / pow2 (rescale_B mp) * (
       (if md_e_chi mp \<noteq> 0 then pow a_t (2 * rescale_r mp) * chi_md
        else pow2 (m_chi mp) * pow a_t (2 * rescale_r mp) * chi) +
       lambda_chi mp / pow2 (rescale_A mp) * chi3 +
       pow2 (g mp / rescale_A mp) * phi2chi +
       gamma_chi mp / pow4 (rescale_A mp) * pow a_t (- 2 * rescale_r mp) * chi5)"

section \<open>Kernel launches\<close>

text \<open>
  \<^verbatim>\<open>kernel<<<dim3(gx, gy), dim3(bx, 1)>>>(...)\<close> runs one thread for every block
  \<open>(x, y)\<close> of the grid and every \<open>z\<close> of the block. The threads of the kernels below
  write disjoint cells and read no cell another thread writes, so every schedule gives the
  result of running them one after the other, which is what \<open>launch\<close> does; the lemma
  \<open>verlet_step_kernel_schedule\<close> below shows it for the kernel of \<^verbatim>\<open>step()\<close>.
\<close>

definition launch :: "nat \<Rightarrow> nat \<Rightarrow> nat \<Rightarrow> (nat \<Rightarrow> nat \<Rightarrow> nat \<Rightarrow> 's \<Rightarrow> 's) \<Rightarrow> 's \<Rightarrow> 's" where
  "launch gx gy bx thread =
     fold (\<lambda>x. fold (\<lambda>y. fold (\<lambda>z. thread x y z) [0..<bx]) [0..<gy]) [0..<gx]"

section \<open>The device kernels (\<^verbatim>\<open>verlet.cu\<close>, lines 82-125 and 163-212)\<close>

text \<open>
  A kernel is given by what the thread \<open>(x, y, z)\<close> (\<^verbatim>\<open>blockIdx.x\<close>, \<^verbatim>\<open>blockIdx.y\<close>,
  \<^verbatim>\<open>threadIdx.x\<close>) does to the arrays it writes; the arrays it only reads are arguments.
  The loop over the component \<open>c\<close> is the fold over \<open>[0..<2]\<close>.
\<close>

definition verlet_init_kernel ::
  "model_params \<Rightarrow> complex_array \<Rightarrow> complex_array \<Rightarrow> complex_array \<Rightarrow> complex_array \<Rightarrow>
   complex_array \<Rightarrow> complex_array \<Rightarrow> complex_array \<Rightarrow> complex_array \<Rightarrow>
   complex_array \<Rightarrow> complex_array \<Rightarrow> real \<Rightarrow> real \<Rightarrow> real \<Rightarrow> nat \<Rightarrow>
   nat \<Rightarrow> nat \<Rightarrow> nat \<Rightarrow> complex_array \<times> complex_array \<Rightarrow> complex_array \<times> complex_array" where
  "verlet_init_kernel mp phi_p chi_p chi2phi_p phi2chi_p phi3_p chi3_p phi5_p chi5_p
       phi_md_p chi_md_p a adot addot n x y z =
     (let px = (if x \<le> n div 2 then int x else int x - int n);
          py = (if y \<le> n div 2 then int y else int y - int n);
          pz = int z;
          idx = z + (n div 2 + 1) * (y + n * x);
          mom2 = pow2 (dp mp) * real_of_int (pow2 px + pow2 py + pow2 pz)
      in fold (\<lambda>c (phiddot, chiddot).
           let phi = rd phi_p idx c; chi = rd chi_p idx c;
               chi2phi = rd chi2phi_p idx c; phi2chi = rd phi2chi_p idx c;
               phi3 = (if lambda_phi mp \<noteq> 0 then rd phi3_p idx c else 0);
               chi3 = (if lambda_chi mp \<noteq> 0 then rd chi3_p idx c else 0);
               phi5 = (if gamma_phi mp \<noteq> 0 then rd phi5_p idx c else 0);
               chi5 = (if gamma_chi mp \<noteq> 0 then rd chi5_p idx c else 0);
               phi_md = (if md_e_phi mp \<noteq> 0 then rd phi_md_p idx c else 0);
               chi_md = (if md_e_chi mp \<noteq> 0 then rd chi_md_p idx c else 0);
               phiddot = wr phiddot idx c
                 (dphidotdt phi chi chi2phi phi3 phi5 phi_md a adot addot mom2 mp);
               chiddot = wr chiddot idx c
                 (dchidotdt phi chi phi2chi chi3 chi5 chi_md a adot addot mom2 mp)
           in (phiddot, chiddot)) [0..<2])"

definition verlet_step_kernel ::
  "model_params \<Rightarrow> complex_array \<Rightarrow> complex_array \<Rightarrow> complex_array \<Rightarrow> complex_array \<Rightarrow>
   complex_array \<Rightarrow> complex_array \<Rightarrow> complex_array \<Rightarrow> complex_array \<Rightarrow>
   complex_array \<Rightarrow> complex_array \<Rightarrow> complex_array \<Rightarrow> complex_array \<Rightarrow>
   real \<Rightarrow> real \<Rightarrow> real \<Rightarrow> real \<Rightarrow> nat \<Rightarrow>
   nat \<Rightarrow> nat \<Rightarrow> nat \<Rightarrow>
   complex_array \<times> complex_array \<times> complex_array \<times> complex_array \<Rightarrow>
   complex_array \<times> complex_array \<times> complex_array \<times> complex_array" where
  "verlet_step_kernel mp phi_p chi_p chi2phi_p phi2chi_p phi3_p chi3_p phi5_p chi5_p
       phi_md_p chi_md_p phidot_staggered chidot_staggered a adot addot dt n x y z =
     (let px = (if x \<le> n div 2 then int x else int x - int n);
          py = (if y \<le> n div 2 then int y else int y - int n);
          pz = int z;
          idx = z + (n div 2 + 1) * (y + n * x);
          mom2 = pow2 (dp mp) * real_of_int (pow2 px + pow2 py + pow2 pz)
      in fold (\<lambda>c (phidot_p, chidot_p, phiddot, chiddot).
           let phi = rd phi_p idx c; chi = rd chi_p idx c;
               chi2phi = rd chi2phi_p idx c; phi2chi = rd phi2chi_p idx c;
               phi3 = (if lambda_phi mp \<noteq> 0 then rd phi3_p idx c else 0);
               chi3 = (if lambda_chi mp \<noteq> 0 then rd chi3_p idx c else 0);
               phi5 = (if gamma_phi mp \<noteq> 0 then rd phi5_p idx c else 0);
               chi5 = (if gamma_chi mp \<noteq> 0 then rd chi5_p idx c else 0);
               phi_md = (if md_e_phi mp \<noteq> 0 then rd phi_md_p idx c else 0);
               chi_md = (if md_e_chi mp \<noteq> 0 then rd chi_md_p idx c else 0);
               phiddot = wr phiddot idx c
                 (dphidotdt phi chi chi2phi phi3 phi5 phi_md a adot addot mom2 mp);
               chiddot = wr chiddot idx c
                 (dchidotdt phi chi phi2chi chi3 chi5 chi_md a adot addot mom2 mp);
               phidot_p = wr phidot_p idx c
                 (rd phidot_staggered idx c + 0.5 * rd phiddot idx c * dt);
               chidot_p = wr chidot_p idx c
                 (rd chidot_staggered idx c + 0.5 * rd chiddot idx c * dt)
           in (phidot_p, chidot_p, phiddot, chiddot)) [0..<2])"

section \<open>The computation with couplings left out\<close>






section \<open>The Hermitian-packed grid\<close>

text \<open>
  What every kernel and the host loop compute from the mode \<open>(x, y, z)\<close>: the centred index
  \<^verbatim>\<open>x <= n/2 ? x : x - n\<close>, the linear index \<^verbatim>\<open>z + (n/2+1)*(y + n*x)\<close> and the squared momentum
  \<^verbatim>\<open>pow2(mp.dp)*(pow2(px) + pow2(py) + pow2(pz))\<close>, whose sum is formed in \<^verbatim>\<open>int\<close> and then
  converted.
\<close>

definition centred :: "nat \<Rightarrow> nat \<Rightarrow> int" where
  "centred n x = (if x \<le> n div 2 then int x else int x - int n)"

definition mode_idx :: "nat \<Rightarrow> nat \<Rightarrow> nat \<Rightarrow> nat \<Rightarrow> nat" where
  "mode_idx n x y z = z + (n div 2 + 1) * (y + n * x)"

definition mode_mom2 :: "model_params \<Rightarrow> nat \<Rightarrow> nat \<Rightarrow> nat \<Rightarrow> nat \<Rightarrow> real" where
  "mode_mom2 mp n x y z =
     (let px = centred n x; py = centred n y; pz = int z
      in pow2 (dp mp) * real_of_int (pow2 px + pow2 py + pow2 pz))"

section \<open>The host loop of \<^verbatim>\<open>verlet<R>::step\<close> (\<^verbatim>\<open>verlet.cu\<close>, lines 239-264)\<close>

text \<open>
  The body of the innermost loop, for one mode \<open>(x, y, z)\<close>. It reads the velocities and
  accelerations, writes the staggered velocities and the fields, and adds the mode's share
  to the two gradient sums, which it reads from the fields it has just advanced.
\<close>

definition step_loop_body ::
  "model_params \<Rightarrow> nat \<Rightarrow> real \<Rightarrow>
   complex_array \<Rightarrow> complex_array \<Rightarrow> complex_array \<Rightarrow> complex_array \<Rightarrow>
   nat \<Rightarrow> nat \<Rightarrow> nat \<Rightarrow>
   complex_array \<times> complex_array \<times> complex_array \<times> complex_array \<times> real \<times> real \<Rightarrow>
   complex_array \<times> complex_array \<times> complex_array \<times> complex_array \<times> real \<times> real" where
  "step_loop_body mp n dt phidot phiddot chidot chiddot x y z =
     (\<lambda>(phi, chi, phidot_staggered, chidot_staggered, total_gradient_phi, total_gradient_chi).
      let px = (if x \<le> n div 2 then int x else int x - int n);
          py = (if y \<le> n div 2 then int y else int y - int n);
          pz = int z;
          idx = z + (n div 2 + 1) * (y + n * x);
          mom2 = pow2 (dp mp) * real_of_int (pow2 px + pow2 py + pow2 pz);
          (phi, chi, phidot_staggered, chidot_staggered) =
            fold (\<lambda>c (phi, chi, phidot_staggered, chidot_staggered).
              let phidot_staggered = wr phidot_staggered idx c
                    (rd phidot idx c + 0.5 * rd phiddot idx c * dt);
                  chidot_staggered = wr chidot_staggered idx c
                    (rd chidot idx c + 0.5 * rd chiddot idx c * dt);
                  phi = wr phi idx c (rd phi idx c + rd phidot_staggered idx c * dt);
                  chi = wr chi idx c (rd chi idx c + rd chidot_staggered idx c * dt)
              in (phi, chi, phidot_staggered, chidot_staggered))
              [0..<2] (phi, chi, phidot_staggered, chidot_staggered);
          mom2 = mom2 * (if z = 0 \<or> z = n div 2 then 1 else 2);
          total_gradient_phi =
            total_gradient_phi + mom2 * (pow2 (rd phi idx 0) + pow2 (rd phi idx 1));
          total_gradient_chi =
            total_gradient_chi + mom2 * (pow2 (rd chi idx 0) + pow2 (rd chi idx 1))
      in (phi, chi, phidot_staggered, chidot_staggered, total_gradient_phi, total_gradient_chi))"

definition step_loop ::
  "model_params \<Rightarrow> nat \<Rightarrow> real \<Rightarrow>
   complex_array \<Rightarrow> complex_array \<Rightarrow> complex_array \<Rightarrow> complex_array \<Rightarrow>
   complex_array \<times> complex_array \<times> complex_array \<times> complex_array \<times> real \<times> real \<Rightarrow>
   complex_array \<times> complex_array \<times> complex_array \<times> complex_array \<times> real \<times> real" where
  "step_loop mp n dt phidot phiddot chidot chiddot =
     fold (\<lambda>x. fold (\<lambda>y. fold (\<lambda>z.
         step_loop_body mp n dt phidot phiddot chidot chiddot x y z)
       [0..<n div 2 + 1]) [0..<n]) [0..<n]"

section \<open>The snapshot sink: what it computes per cell\<close>

text \<open>
  The source of \<^verbatim>\<open>slice_output_manager\<close> reads its configuration from macros that a header
  outside the sources defines. They are the fields of this record; \<^verbatim>\<open>IF_CHI\<close> and
  \<^verbatim>\<open>IF_CHI_ARG\<close> keep their argument when \<^verbatim>\<open>ENABLE_CHI\<close> is set and drop it otherwise.
\<close>

record build_config =
  RESCALE_A :: real
  RESCALE_B :: real
  RESCALE_R :: real
  RESCALE_S :: real
  NGRIDSIZE :: nat
  BEGIN_OUTPUT_TIME :: real
  ENABLE_CHI :: bool

definition compute_energy_scaling :: "build_config \<Rightarrow> real \<Rightarrow> real \<Rightarrow> real" where
  "compute_energy_scaling K a adot =
     8 * pi / (3 * pow2 (RESCALE_A K) * pow a (2 * RESCALE_R K) * pow2 (adot / a))"

definition compute_phi :: "build_config \<Rightarrow> real \<Rightarrow> real \<Rightarrow> real" where
  "compute_phi K a phi = pow a (- RESCALE_R K) * phi / RESCALE_A K"

text \<open>
  \<^verbatim>\<open>model_params::V\<close> is declared outside the sources; it is the parameter \<open>V\<close>, which
  receives \<open>chi\<close> only in a build with the second field.
\<close>

definition compute_V_phys ::
  "build_config \<Rightarrow> (real \<Rightarrow> real option \<Rightarrow> real \<Rightarrow> real) \<Rightarrow> real \<Rightarrow> real \<Rightarrow> real \<Rightarrow> real" where
  "compute_V_phys K V a phi chi = V phi (if ENABLE_CHI K then Some chi else None) a"

definition compute_T_phi_phys :: "build_config \<Rightarrow> real \<Rightarrow> real \<Rightarrow> real \<Rightarrow> real \<Rightarrow> real" where
  "compute_T_phi_phys K a adot phi phidot =
     0.5 * pow2 phidot - RESCALE_R K * adot / a * phi * phidot +
     pow2 (RESCALE_R K * adot / a) * 0.5 * pow2 phi"

definition compute_T_chi_phys :: "build_config \<Rightarrow> real \<Rightarrow> real \<Rightarrow> real \<Rightarrow> real \<Rightarrow> real" where
  "compute_T_chi_phys K a adot chi chidot =
     0.5 * pow2 chidot - RESCALE_R K * adot / a * chi * chidot +
     pow2 (RESCALE_R K * adot / a) * 0.5 * pow2 chi"

definition compute_G_phi_phys :: "build_config \<Rightarrow> real \<Rightarrow> real \<Rightarrow> real \<Rightarrow> real \<Rightarrow> real" where
  "compute_G_phi_phys K a phigradx phigrady phigradz =
     pow a (- 2 * RESCALE_S K - 2) * 0.5 * (pow2 phigradx + pow2 phigrady + pow2 phigradz)"

definition compute_G_chi_phys :: "build_config \<Rightarrow> real \<Rightarrow> real \<Rightarrow> real \<Rightarrow> real \<Rightarrow> real" where
  "compute_G_chi_phys K a chigradx chigrady chigradz =
     pow a (- 2 * RESCALE_S K - 2) * 0.5 * (pow2 chigradx + pow2 chigrady + pow2 chigradz)"

definition compute_rho_phys ::
  "build_config \<Rightarrow> (real \<Rightarrow> real option \<Rightarrow> real \<Rightarrow> real) \<Rightarrow> real \<Rightarrow> real \<Rightarrow>
   real \<Rightarrow> real \<Rightarrow> real \<Rightarrow> real \<Rightarrow> real \<Rightarrow> real \<Rightarrow> real \<Rightarrow> real \<Rightarrow> real \<Rightarrow> real \<Rightarrow> real" where
  "compute_rho_phys K V a adot phi chi phidot chidot phigradx chigradx phigrady chigrady
       phigradz chigradz =
     compute_V_phys K V a phi chi
     + compute_T_phi_phys K a adot phi phidot
     + (if ENABLE_CHI K then compute_T_chi_phys K a adot chi chidot else 0)
     + compute_G_phi_phys K a phigradx phigrady phigradz
     + (if ENABLE_CHI K then compute_G_chi_phys K a chigradx chigrady chigradz else 0)"

definition compute_rho ::
  "build_config \<Rightarrow> (real \<Rightarrow> real option \<Rightarrow> real \<Rightarrow> real) \<Rightarrow> real \<Rightarrow> real \<Rightarrow>
   real \<Rightarrow> real \<Rightarrow> real \<Rightarrow> real \<Rightarrow> real \<Rightarrow> real \<Rightarrow> real \<Rightarrow> real \<Rightarrow> real \<Rightarrow> real \<Rightarrow> real" where
  "compute_rho K V a adot phi chi phidot chidot phigradx chigradx phigrady chigrady
       phigradz chigradz =
     compute_energy_scaling K a adot *
     compute_rho_phys K V a adot phi chi phidot chidot phigradx chigradx phigrady chigrady
       phigradz chigradz"

text \<open>
  The two kernels, as what the thread \<open>(x, y, z)\<close> does to the output array. The input
  arrays are position views in the padded layout of the in-place transform, with rows of
  \<^verbatim>\<open>2*(NGRIDSIZE/2+1)\<close> doubles; the output array has rows of \<^verbatim>\<open>NGRIDSIZE\<close> doubles.
\<close>

definition compute_phi_kernel ::
  "build_config \<Rightarrow> double_array \<Rightarrow> real \<Rightarrow> nat \<Rightarrow> nat \<Rightarrow> nat \<Rightarrow> double_array \<Rightarrow> double_array" where
  "compute_phi_kernel K phi a x y z out =
     (let ldl = 2 * (NGRIDSIZE K div 2 + 1);
          idx = z + ldl * (y + NGRIDSIZE K * x);
          out_idx = z + NGRIDSIZE K * (y + NGRIDSIZE K * x)
      in out(out_idx := compute_phi K a (phi idx)))"

definition compute_rho_kernel ::
  "build_config \<Rightarrow> (real \<Rightarrow> real option \<Rightarrow> real \<Rightarrow> real) \<Rightarrow>
   double_array \<Rightarrow> double_array \<Rightarrow> double_array \<Rightarrow> double_array \<Rightarrow>
   double_array \<Rightarrow> double_array \<Rightarrow> double_array \<Rightarrow> double_array \<Rightarrow>
   double_array \<Rightarrow> double_array \<Rightarrow> real \<Rightarrow> real \<Rightarrow>
   nat \<Rightarrow> nat \<Rightarrow> nat \<Rightarrow> double_array \<Rightarrow> double_array" where
  "compute_rho_kernel K V phi chi phidot chidot phigradx chigradx phigrady chigrady
       phigradz chigradz a adot x y z out =
     (let ldl = 2 * (NGRIDSIZE K div 2 + 1);
          idx = z + ldl * (y + NGRIDSIZE K * x);
          out_idx = z + NGRIDSIZE K * (y + NGRIDSIZE K * x)
      in out(out_idx := compute_rho K V a adot
           (phi idx) (chi idx) (phidot idx) (chidot idx)
           (phigradx idx) (chigradx idx) (phigrady idx) (chigrady idx)
           (phigradz idx) (chigradz idx)))"

section \<open>The snapshot sink: files\<close>

text \<open>
  \<^verbatim>\<open>snprintf(name, sizeof(name), "%s_%.5d.bin", field, idx)\<close> with a buffer of 32 bytes: the
  conversion \<^verbatim>\<open>%.5d\<close> prints the sign of a negative number and at least five digits, and
  the result is cut to 31 characters.
\<close>

definition digit_char :: "nat \<Rightarrow> char" where
  "digit_char k = ''0123456789'' ! k"

function decimal :: "nat \<Rightarrow> string" where
  "decimal k = (if k < 10 then [digit_char k] else decimal (k div 10) @ [digit_char (k mod 10)])"
  by pat_completeness auto
termination
  by (relation "measure id") auto

declare decimal.simps [simp del]

definition fmt_5d :: "int \<Rightarrow> string" where
  "fmt_5d i =
     (let ds = decimal (nat \<bar>i\<bar>)
      in (if i < 0 then ''-'' else []) @ replicate (5 - length ds) (CHR ''0'') @ ds)"

definition snprintf_name :: "nat \<Rightarrow> string \<Rightarrow> int \<Rightarrow> string" where
  "snprintf_name sz field idx = take (sz - 1) (field @ ''_'' @ fmt_5d idx @ ''.bin'')"

text \<open>
  The file system and the two output streams. A file is the sequence of doubles written to
  it, in the host's representation of a double, eight bytes each; how a double is laid out
  in those bytes is not modelled.
\<close>

record world =
  files :: "string \<Rightarrow> real list option"
  stderr :: "string list"
  stdout :: "string list"


text \<open>
  What the operating system decides in a call of \<^verbatim>\<open>write_array_to_file\<close> for the file of a
  given name: whether \<^verbatim>\<open>open\<close> succeeds, whether \<^verbatim>\<open>malloc\<close> succeeds, and how many leading
  doubles of the buffer \<^verbatim>\<open>pwrite\<close> puts into the file, or that it fails.
\<close>

record io =
  open_ok :: "string \<Rightarrow> bool"
  malloc_ok :: "string \<Rightarrow> bool"
  pwrite_count :: "string \<Rightarrow> nat option"

text \<open>
  Modelled from the spec: \<^verbatim>\<open>double_array_gpu\<close>, declared outside the sources: a device array
  of \<open>n1 * n2 * n3\<close> doubles, whose \<^verbatim>\<open>alloc_size()\<close> is its size in bytes and whose
  \<^verbatim>\<open>download\<close> copies its doubles to the host. What a new array holds is whatever the
  allocator returns, the argument \<open>fresh\<close>.
\<close>

record double_array_gpu =
  elems :: nat
  ptr :: double_array

definition new_double_array_gpu :: "double_array \<Rightarrow> nat \<Rightarrow> nat \<Rightarrow> nat \<Rightarrow> double_array_gpu" where
  "new_double_array_gpu fresh n1 n2 n3 = \<lparr>elems = n1 * n2 * n3, ptr = fresh\<rparr>"

definition alloc_size :: "double_array_gpu \<Rightarrow> nat" where
  "alloc_size arr = 8 * elems arr"

definition download :: "double_array_gpu \<Rightarrow> real list" where
  "download arr = map (ptr arr) [0..<elems arr]"

text \<open>
  \<^verbatim>\<open>write_array_to_file\<close>. A failure of \<^verbatim>\<open>open\<close> is printed by \<^verbatim>\<open>perror\<close>, whose line ends with
  the system's text for the error, not modelled; \<^verbatim>\<open>close(-1)\<close> then does nothing. After a
  successful \<^verbatim>\<open>open\<close> the file exists and is empty. A failure of \<^verbatim>\<open>malloc\<close> is printed
  and the function goes on with the null buffer, from which nothing reaches the file.
  Otherwise \<^verbatim>\<open>pwrite\<close> is asked for \<^verbatim>\<open>alloc_size()\<close> bytes of the downloaded array, and its
  result is not looked at.
\<close>

definition write_array_to_file ::
  "io \<Rightarrow> double_array_gpu \<Rightarrow> string \<Rightarrow> int \<Rightarrow> world \<Rightarrow> world" where
  "write_array_to_file os arr field idx w =
     (let name = snprintf_name 32 field idx
      in if \<not> open_ok os name
         then w\<lparr>stderr := stderr w @ [''write_array_to_file: open failed.'']\<rparr>
         else
           let w = w\<lparr>files := (files w)(name \<mapsto> [])\<rparr>
           in if \<not> malloc_ok os name
              then w\<lparr>stdout := stdout w @ [''write_array_to_file: malloc fail'']\<rparr>
              else (case pwrite_count os name of
                      None \<Rightarrow> w
                    | Some k \<Rightarrow>
                        w\<lparr>files := (files w)(name \<mapsto>
                             take (min k (alloc_size arr div 8)) (download arr))\<rparr>))"

section \<open>Fields, time state and the collaborators of the integrator\<close>

datatype field_state = position | momentum

text \<open>
  A \<^verbatim>\<open>field<R>\<close> with its two views, \<^verbatim>\<open>data\<close> in position space and \<^verbatim>\<open>mdata\<close> in momentum
  space, and the flag that says which of them is live. The class is declared outside the
  sources at hand. Of the view that is not live nothing is known, and no function below
  reads it after a switch.
\<close>

record field =
  state :: field_state
  data :: double_array
  mdata :: complex_array

record field_size =
  n :: nat
  total_gridpoints :: nat

record time_state =
  t :: real
  a :: real
  adot :: real
  addot :: real
  dt :: real
  physical_time :: real

text \<open>The product fields the nonlinear term builder owns and the kernels read.\<close>

record nonlinear_transformer =
  chi2phi :: field
  phi2chi :: field
  phi3 :: field
  chi3 :: field
  phi5 :: field
  chi5 :: field
  phi_md :: field
  chi_md :: field

text \<open>
  The gradient fields of \<^verbatim>\<open>grad_computer\<close>, which the snapshot sink reads after
  \<^verbatim>\<open>gc.compute()\<close>; the class is declared outside the sources.
\<close>

record grad_computer =
  phigradx :: field
  chigradx :: field
  phigrady :: field
  chigrady :: field
  phigradz :: field
  chigradz :: field

text \<open>
  The code of this repository that \<^verbatim>\<open>verlet.cu\<close> calls and that is not among the sources:
  the two Fourier transforms behind \<^verbatim>\<open>field::switch_state\<close>, the two forms of the
  scale-factor acceleration of \<^verbatim>\<open>model_params\<close>, \<^verbatim>\<open>integrator::avg_gradients\<close> (which
  receives the two averages by reference), the potential integrator \<^verbatim>\<open>vi.integrate\<close> and the
  builder \<^verbatim>\<open>nlt.transform\<close>. Each is a parameter; the three that receive \<^verbatim>\<open>phi\<close> and
  \<^verbatim>\<open>chi\<close> by reference return them, since they may switch their representation. The
  snapshot sink calls three more: \<^verbatim>\<open>gc.compute()\<close>, which works on the fields the gradient
  computer refers to, the potential \<^verbatim>\<open>model_params::V\<close>, and the device allocator, of which
  only the contents of a new array matter.
\<close>

record env =
  r2c :: "double_array \<Rightarrow> complex_array"
  c2r :: "complex_array \<Rightarrow> double_array"
  adoubledot :: "model_params \<Rightarrow> real \<Rightarrow> real \<Rightarrow> real \<Rightarrow> real \<Rightarrow> real \<Rightarrow> real \<Rightarrow> real"
  adoubledot_staggered ::
    "model_params \<Rightarrow> real \<Rightarrow> real \<Rightarrow> real \<Rightarrow> real \<Rightarrow> real \<Rightarrow> real \<Rightarrow> real \<Rightarrow> real"
  avg_gradients ::
    "field_size \<Rightarrow> model_params \<Rightarrow> field \<Rightarrow> field \<Rightarrow> real \<Rightarrow> real \<Rightarrow>
     (real \<times> real) \<times> field \<times> field"
  integrate :: "field \<Rightarrow> field \<Rightarrow> real \<Rightarrow> real \<times> field \<times> field"
  transform ::
    "nonlinear_transformer \<Rightarrow> field \<Rightarrow> field \<Rightarrow> real \<Rightarrow>
     nonlinear_transformer \<times> field \<times> field"
  gc_compute :: "grad_computer \<Rightarrow> field \<Rightarrow> field \<Rightarrow> grad_computer \<times> field \<times> field"
  V :: "real \<Rightarrow> real option \<Rightarrow> real \<Rightarrow> real"
  fresh_memory :: double_array

text \<open>
  Modelled from the spec: \<^verbatim>\<open>field::switch_state\<close>, whose definition is not among the
  sources. It does nothing to a field already in the target state; otherwise it transforms
  the live view into the other one and flips the flag.
\<close>

definition switch_state :: "env \<Rightarrow> field_state \<Rightarrow> field \<Rightarrow> field" where
  "switch_state E target f =
     (if state f = target then f
      else if target = momentum then f\<lparr>state := momentum, mdata := r2c E (data f)\<rparr>
      else f\<lparr>state := position, data := c2r E (mdata f)\<rparr>)"

text \<open>
  Modelled from the spec: \<^verbatim>\<open>pow<2, R>\<close> of \<^verbatim>\<open>pow.hpp\<close>, which is not among the sources; the
  gradient sums are normalised by the square of the number of grid points.
\<close>

definition pow_2 :: "real \<Rightarrow> real" where
  "pow_2 x = x * x"

section \<open>The integrator (\<^verbatim>\<open>verlet.cu\<close>, lines 127-161 and 214-295)\<close>

text \<open>
  What the driver owns and lends to the integrator and to the snapshot sink by reference:
  the time state, the two fields and their velocities.
\<close>

record sim =
  ts :: time_state
  phi :: field
  phidot :: field
  chi :: field
  chidot :: field

record verlet = sim +
  fs :: field_size
  mp :: model_params
  phiddot :: field
  phidot_staggered :: field
  chiddot :: field
  chidot_staggered :: field
  nlt :: nonlinear_transformer
  addot :: real
  adot_staggered :: real
  dptdt :: real
  ddptdt :: real
  dptdt_staggered :: real

definition initialize :: "env \<Rightarrow> verlet \<Rightarrow> verlet" where
  "initialize E v0 =
     (let avg_gradient_phi = 0; avg_gradient_chi = 0;
          v = v0;
          ((avg_gradient_phi, avg_gradient_chi), phi', chi') =
            avg_gradients E (fs v) (mp v) (phi v) (chi v) avg_gradient_phi avg_gradient_chi;
          v = v\<lparr>phi := phi', chi := chi'\<rparr>;
          (avg_V, phi', chi') = integrate E (phi v) (chi v) (a (ts v));
          v = v\<lparr>phi := phi', chi := chi'\<rparr>;
          addot' = adoubledot E (mp v) (t (ts v)) (a (ts v)) (time_state.adot (ts v))
                     avg_gradient_phi avg_gradient_chi avg_V;
          v = v\<lparr>addot := addot', ts := (ts v)\<lparr>time_state.addot := addot'\<rparr>\<rparr>;
          v = v\<lparr>ddptdt := - rescale_s (mp v) / rescale_B (mp v) *
                  pow (a (ts v)) (- rescale_s (mp v) - 1) * time_state.adot (ts v)\<rparr>;
          (nlt', phi', chi') = transform E (nlt v) (phi v) (chi v) (a (ts v));
          v = v\<lparr>nlt := nlt', phi := phi', chi := chi'\<rparr>;
          v = v\<lparr>phi := switch_state E momentum (phi v)\<rparr>;
          v = v\<lparr>chi := switch_state E momentum (chi v)\<rparr>;
          v = v\<lparr>phidot := switch_state E momentum (phidot v)\<rparr>;
          v = v\<lparr>chidot := switch_state E momentum (chidot v)\<rparr>;
          v = v\<lparr>phiddot := switch_state E momentum (phiddot v)\<rparr>;
          v = v\<lparr>chiddot := switch_state E momentum (chiddot v)\<rparr>;
          (phiddot_m, chiddot_m) =
            launch (n (fs v)) (n (fs v)) (n (fs v) div 2 + 1)
              (verlet_init_kernel (mp v)
                 (mdata (phi v)) (mdata (chi v))
                 (mdata (chi2phi (nlt v))) (mdata (phi2chi (nlt v)))
                 (mdata (phi3 (nlt v))) (mdata (chi3 (nlt v)))
                 (mdata (phi5 (nlt v))) (mdata (chi5 (nlt v)))
                 (mdata (phi_md (nlt v))) (mdata (chi_md (nlt v)))
                 (a (ts v)) (time_state.adot (ts v)) (verlet.addot v) (n (fs v)))
              (mdata (phiddot v), mdata (chiddot v))
      in v\<lparr>phiddot := (phiddot v)\<lparr>mdata := phiddot_m\<rparr>,
            chiddot := (chiddot v)\<lparr>mdata := chiddot_m\<rparr>\<rparr>)"

definition step :: "env \<Rightarrow> verlet \<Rightarrow> verlet" where
  "step E v0 =
     (let v = v0\<lparr>adot_staggered :=
                  time_state.adot (ts v0) + 0.5 * verlet.addot v0 * dt (ts v0)\<rparr>;
          v = v\<lparr>dptdt_staggered := dptdt v + 0.5 * ddptdt v * dt (ts v)\<rparr>;
          v = v\<lparr>ts := (ts v)\<lparr>a := a (ts v) +
                  (time_state.adot (ts v) * dt (ts v) +
                   0.5 * verlet.addot v * pow2 (dt (ts v)))\<rparr>\<rparr>;
          v = v\<lparr>ts := (ts v)\<lparr>physical_time := physical_time (ts v) +
                  (dptdt v * dt (ts v) + 0.5 * ddptdt v * pow2 (dt (ts v)))\<rparr>\<rparr>;
          v = v\<lparr>phi := switch_state E momentum (phi v)\<rparr>;
          v = v\<lparr>chi := switch_state E momentum (chi v)\<rparr>;
          v = v\<lparr>phidot := switch_state E momentum (phidot v)\<rparr>;
          v = v\<lparr>chidot := switch_state E momentum (chidot v)\<rparr>;
          v = v\<lparr>phiddot := switch_state E momentum (phiddot v)\<rparr>;
          v = v\<lparr>chiddot := switch_state E momentum (chiddot v)\<rparr>;
          v = v\<lparr>phidot_staggered := switch_state E momentum (phidot_staggered v)\<rparr>;
          v = v\<lparr>chidot_staggered := switch_state E momentum (chidot_staggered v)\<rparr>;
          total_gradient_phi = 0; total_gradient_chi = 0;
          (phi_m, chi_m, phidot_staggered_m, chidot_staggered_m,
             total_gradient_phi, total_gradient_chi) =
            step_loop (mp v) (n (fs v)) (dt (ts v))
              (mdata (phidot v)) (mdata (phiddot v)) (mdata (chidot v)) (mdata (chiddot v))
              (mdata (phi v), mdata (chi v),
               mdata (phidot_staggered v), mdata (chidot_staggered v),
               total_gradient_phi, total_gradient_chi);
          v = v\<lparr>phi := (phi v)\<lparr>mdata := phi_m\<rparr>,
                chi := (chi v)\<lparr>mdata := chi_m\<rparr>,
                phidot_staggered := (phidot_staggered v)\<lparr>mdata := phidot_staggered_m\<rparr>,
                chidot_staggered := (chidot_staggered v)\<lparr>mdata := chidot_staggered_m\<rparr>\<rparr>;
          avg_gradient_phi = total_gradient_phi / pow_2 (real (total_gridpoints (fs v)));
          avg_gradient_chi = total_gradient_chi / pow_2 (real (total_gridpoints (fs v)));
          (avg_V, phi', chi') = integrate E (phi v) (chi v) (a (ts v));
          v = v\<lparr>phi := phi', chi := chi'\<rparr>;
          addot' = adoubledot_staggered E (mp v) (t (ts v)) (dt (ts v)) (a (ts v))
                     (adot_staggered v) avg_gradient_phi avg_gradient_chi avg_V;
          v = v\<lparr>addot := addot', ts := (ts v)\<lparr>time_state.addot := addot'\<rparr>\<rparr>;
          v = v\<lparr>ts := (ts v)\<lparr>adot := adot_staggered v + 0.5 * verlet.addot v * dt (ts v)\<rparr>\<rparr>;
          v = v\<lparr>ddptdt := - rescale_s (mp v) / rescale_B (mp v) *
                  pow (a (ts v)) (- rescale_s (mp v) - 1) * time_state.adot (ts v)\<rparr>;
          v = v\<lparr>dptdt := dptdt_staggered v + 0.5 * ddptdt v * dt (ts v)\<rparr>;
          (nlt', phi', chi') = transform E (nlt v) (phi v) (chi v) (a (ts v));
          v = v\<lparr>nlt := nlt', phi := phi', chi := chi'\<rparr>;
          v = v\<lparr>phi := switch_state E momentum (phi v)\<rparr>;
          v = v\<lparr>chi := switch_state E momentum (chi v)\<rparr>;
          (phidot_m, chidot_m, phiddot_m, chiddot_m) =
            launch (n (fs v)) (n (fs v)) (n (fs v) div 2 + 1)
              (verlet_step_kernel (mp v)
                 (mdata (phi v)) (mdata (chi v))
                 (mdata (chi2phi (nlt v))) (mdata (phi2chi (nlt v)))
                 (mdata (phi3 (nlt v))) (mdata (chi3 (nlt v)))
                 (mdata (phi5 (nlt v))) (mdata (chi5 (nlt v)))
                 (mdata (phi_md (nlt v))) (mdata (chi_md (nlt v)))
                 (mdata (phidot_staggered v)) (mdata (chidot_staggered v))
                 (a (ts v)) (time_state.adot (ts v)) (verlet.addot v) (dt (ts v)) (n (fs v)))
              (mdata (phidot v), mdata (chidot v), mdata (phiddot v), mdata (chiddot v))
      in v\<lparr>phidot := (phidot v)\<lparr>mdata := phidot_m\<rparr>,
            chidot := (chidot v)\<lparr>mdata := chidot_m\<rparr>,
            phiddot := (phiddot v)\<lparr>mdata := phiddot_m\<rparr>,
            chiddot := (chiddot v)\<lparr>mdata := chiddot_m\<rparr>\<rparr>)"

section \<open>The snapshot sink: \<^verbatim>\<open>slice_output_manager<R>::output\<close>\<close>

text \<open>
  The method \<^verbatim>\<open>output()\<close> is \<open>slice_output\<close> here, \<open>output\<close> being a word of Isabelle's own. It
  takes and returns the manager with the state it refers to, and the world of files and
  streams.
\<close>

record slice_output_manager = sim +
  gc :: grad_computer
  bin_idx :: int

definition slice_output ::
  "build_config \<Rightarrow> env \<Rightarrow> io \<Rightarrow> slice_output_manager \<times> world \<Rightarrow>
   slice_output_manager \<times> world" where
  "slice_output K E os = (\<lambda>(m0, w0).
     if physical_time (ts m0) * RESCALE_B K < BEGIN_OUTPUT_TIME K then (m0, w0)
     else
       let (gc', phi', chi') = gc_compute E (gc m0) (phi m0) (chi m0);
           m = m0\<lparr>gc := gc', phi := phi', chi := chi'\<rparr>;
           m = m\<lparr>phi := switch_state E position (phi m)\<rparr>;
           m = m\<lparr>phidot := switch_state E position (phidot m)\<rparr>;
           m = (if ENABLE_CHI K then m\<lparr>chi := switch_state E position (chi m)\<rparr> else m);
           m = (if ENABLE_CHI K then m\<lparr>chidot := switch_state E position (chidot m)\<rparr> else m);
           phi_out = new_double_array_gpu (fresh_memory E)
                       (NGRIDSIZE K) (NGRIDSIZE K) (NGRIDSIZE K);
           rho_out = new_double_array_gpu (fresh_memory E)
                       (NGRIDSIZE K) (NGRIDSIZE K) (NGRIDSIZE K);
           phi_out = phi_out\<lparr>ptr :=
             launch (NGRIDSIZE K) (NGRIDSIZE K) (NGRIDSIZE K)
               (compute_phi_kernel K (data (phi m)) (a (ts m))) (ptr phi_out)\<rparr>;
           rho_out = rho_out\<lparr>ptr :=
             launch (NGRIDSIZE K) (NGRIDSIZE K) (NGRIDSIZE K)
               (compute_rho_kernel K (V E)
                  (data (phi m)) (data (chi m)) (data (phidot m)) (data (chidot m))
                  (data (phigradx (gc m))) (data (chigradx (gc m)))
                  (data (phigrady (gc m))) (data (chigrady (gc m)))
                  (data (phigradz (gc m))) (data (chigradz (gc m)))
                  (a (ts m)) (time_state.adot (ts m))) (ptr rho_out)\<rparr>;
           w = write_array_to_file os phi_out ''phi'' (bin_idx m) w0;
           w = write_array_to_file os rho_out ''rho'' (bin_idx m) w;
           m = m\<lparr>bin_idx := bin_idx m + 1\<rparr>
       in (m, w))"

section \<open>The phases of a step\<close>

text \<open>
  The five phases the specification distinguishes in \<^verbatim>\<open>step()\<close>, each the model of the
  lines of \<^verbatim>\<open>verlet.cu\<close> that carry it out: the drift of the scale factor (217-221), the
  kick-drift of the fields in momentum space with the gradient reduction (223-264), the
  update of the second derivative of the scale factor (266-275), the rebuild of the
  nonlinear terms (277-280), and the velocity kick (282-294). The second phase hands the
  two gradient sums to the third.
\<close>

definition scale_factor_drift :: "verlet \<Rightarrow> verlet" where
  "scale_factor_drift v0 =
     (let v = v0\<lparr>adot_staggered :=
                  time_state.adot (ts v0) + 0.5 * verlet.addot v0 * dt (ts v0)\<rparr>;
          v = v\<lparr>dptdt_staggered := dptdt v + 0.5 * ddptdt v * dt (ts v)\<rparr>;
          v = v\<lparr>ts := (ts v)\<lparr>a := a (ts v) +
                  (time_state.adot (ts v) * dt (ts v) +
                   0.5 * verlet.addot v * pow2 (dt (ts v)))\<rparr>\<rparr>
      in v\<lparr>ts := (ts v)\<lparr>physical_time := physical_time (ts v) +
                  (dptdt v * dt (ts v) + 0.5 * ddptdt v * pow2 (dt (ts v)))\<rparr>\<rparr>)"

definition kick_drift :: "env \<Rightarrow> verlet \<Rightarrow> verlet \<times> real \<times> real" where
  "kick_drift E v0 =
     (let v = v0\<lparr>phi := switch_state E momentum (phi v0)\<rparr>;
          v = v\<lparr>chi := switch_state E momentum (chi v)\<rparr>;
          v = v\<lparr>phidot := switch_state E momentum (phidot v)\<rparr>;
          v = v\<lparr>chidot := switch_state E momentum (chidot v)\<rparr>;
          v = v\<lparr>phiddot := switch_state E momentum (phiddot v)\<rparr>;
          v = v\<lparr>chiddot := switch_state E momentum (chiddot v)\<rparr>;
          v = v\<lparr>phidot_staggered := switch_state E momentum (phidot_staggered v)\<rparr>;
          v = v\<lparr>chidot_staggered := switch_state E momentum (chidot_staggered v)\<rparr>;
          (phi_m, chi_m, phidot_staggered_m, chidot_staggered_m, sum_phi, sum_chi) =
            step_loop (mp v) (n (fs v)) (dt (ts v))
              (mdata (phidot v)) (mdata (phiddot v)) (mdata (chidot v)) (mdata (chiddot v))
              (mdata (phi v), mdata (chi v),
               mdata (phidot_staggered v), mdata (chidot_staggered v), 0, 0)
      in (v\<lparr>phi := (phi v)\<lparr>mdata := phi_m\<rparr>,
             chi := (chi v)\<lparr>mdata := chi_m\<rparr>,
             phidot_staggered := (phidot_staggered v)\<lparr>mdata := phidot_staggered_m\<rparr>,
             chidot_staggered := (chidot_staggered v)\<lparr>mdata := chidot_staggered_m\<rparr>\<rparr>,
          sum_phi, sum_chi))"

definition scale_factor_update :: "env \<Rightarrow> verlet \<times> real \<times> real \<Rightarrow> verlet" where
  "scale_factor_update E = (\<lambda>(v0, sum_phi, sum_chi).
     let avg_phi = sum_phi / pow_2 (real (total_gridpoints (fs v0)));
         avg_chi = sum_chi / pow_2 (real (total_gridpoints (fs v0)));
         (avg_V, phi', chi') = integrate E (phi v0) (chi v0) (a (ts v0));
         v = v0\<lparr>phi := phi', chi := chi'\<rparr>;
         addot' = adoubledot_staggered E (mp v) (t (ts v)) (dt (ts v)) (a (ts v))
                    (adot_staggered v) avg_phi avg_chi avg_V;
         v = v\<lparr>addot := addot', ts := (ts v)\<lparr>time_state.addot := addot'\<rparr>\<rparr>;
         v = v\<lparr>ts := (ts v)\<lparr>adot := adot_staggered v + 0.5 * verlet.addot v * dt (ts v)\<rparr>\<rparr>;
         v = v\<lparr>ddptdt := - rescale_s (mp v) / rescale_B (mp v) *
                 pow (a (ts v)) (- rescale_s (mp v) - 1) * time_state.adot (ts v)\<rparr>
     in v\<lparr>dptdt := dptdt_staggered v + 0.5 * ddptdt v * dt (ts v)\<rparr>)"

definition nonlinear_rebuild :: "env \<Rightarrow> verlet \<Rightarrow> verlet" where
  "nonlinear_rebuild E v0 =
     (let (nlt', phi', chi') = transform E (nlt v0) (phi v0) (chi v0) (a (ts v0));
          v = v0\<lparr>nlt := nlt', phi := phi', chi := chi'\<rparr>;
          v = v\<lparr>phi := switch_state E momentum (phi v)\<rparr>
      in v\<lparr>chi := switch_state E momentum (chi v)\<rparr>)"

definition velocity_kick :: "verlet \<Rightarrow> verlet" where
  "velocity_kick v =
     (let (phidot_m, chidot_m, phiddot_m, chiddot_m) =
            launch (n (fs v)) (n (fs v)) (n (fs v) div 2 + 1)
              (verlet_step_kernel (mp v)
                 (mdata (phi v)) (mdata (chi v))
                 (mdata (chi2phi (nlt v))) (mdata (phi2chi (nlt v)))
                 (mdata (phi3 (nlt v))) (mdata (chi3 (nlt v)))
                 (mdata (phi5 (nlt v))) (mdata (chi5 (nlt v)))
                 (mdata (phi_md (nlt v))) (mdata (chi_md (nlt v)))
                 (mdata (phidot_staggered v)) (mdata (chidot_staggered v))
                 (a (ts v)) (time_state.adot (ts v)) (verlet.addot v) (dt (ts v)) (n (fs v)))
              (mdata (phidot v), mdata (chidot v), mdata (phiddot v), mdata (chiddot v))
      in v\<lparr>phidot := (phidot v)\<lparr>mdata := phidot_m\<rparr>,
            chidot := (chidot v)\<lparr>mdata := chidot_m\<rparr>,
            phiddot := (phiddot v)\<lparr>mdata := phiddot_m\<rparr>,
            chiddot := (chiddot v)\<lparr>mdata := chiddot_m\<rparr>\<rparr>)"

section \<open>The two parts of the initialisation, and the integrator with couplings left out\<close>

text \<open>
  \<^verbatim>\<open>initialize()\<close> in two parts: the work of the host up to the switch of the fields into
  momentum space (lines 130-148), and the launch of the initialisation kernel (150-160).
\<close>

definition initialize_host :: "env \<Rightarrow> verlet \<Rightarrow> verlet" where
  "initialize_host E v0 =
     (let ((avg_gradient_phi, avg_gradient_chi), phi', chi') =
            avg_gradients E (fs v0) (mp v0) (phi v0) (chi v0) 0 0;
          v = v0\<lparr>phi := phi', chi := chi'\<rparr>;
          (avg_V, phi', chi') = integrate E (phi v) (chi v) (a (ts v));
          v = v\<lparr>phi := phi', chi := chi'\<rparr>;
          addot' = adoubledot E (mp v) (t (ts v)) (a (ts v)) (time_state.adot (ts v))
                     avg_gradient_phi avg_gradient_chi avg_V;
          v = v\<lparr>addot := addot', ts := (ts v)\<lparr>time_state.addot := addot'\<rparr>\<rparr>;
          v = v\<lparr>ddptdt := - rescale_s (mp v) / rescale_B (mp v) *
                  pow (a (ts v)) (- rescale_s (mp v) - 1) * time_state.adot (ts v)\<rparr>;
          (nlt', phi', chi') = transform E (nlt v) (phi v) (chi v) (a (ts v));
          v = v\<lparr>nlt := nlt', phi := phi', chi := chi'\<rparr>;
          v = v\<lparr>phi := switch_state E momentum (phi v)\<rparr>;
          v = v\<lparr>chi := switch_state E momentum (chi v)\<rparr>;
          v = v\<lparr>phidot := switch_state E momentum (phidot v)\<rparr>;
          v = v\<lparr>chidot := switch_state E momentum (chidot v)\<rparr>;
          v = v\<lparr>phiddot := switch_state E momentum (phiddot v)\<rparr>
      in v\<lparr>chiddot := switch_state E momentum (chiddot v)\<rparr>)"

definition initialize_kernel :: "verlet \<Rightarrow> verlet" where
  "initialize_kernel v =
     (let (phiddot_m, chiddot_m) =
            launch (n (fs v)) (n (fs v)) (n (fs v) div 2 + 1)
              (verlet_init_kernel (mp v)
                 (mdata (phi v)) (mdata (chi v))
                 (mdata (chi2phi (nlt v))) (mdata (phi2chi (nlt v)))
                 (mdata (phi3 (nlt v))) (mdata (chi3 (nlt v)))
                 (mdata (phi5 (nlt v))) (mdata (chi5 (nlt v)))
                 (mdata (phi_md (nlt v))) (mdata (chi_md (nlt v)))
                 (a (ts v)) (time_state.adot (ts v)) (verlet.addot v) (n (fs v)))
              (mdata (phiddot v), mdata (chiddot v))
      in v\<lparr>phiddot := (phiddot v)\<lparr>mdata := phiddot_m\<rparr>,
            chiddot := (chiddot v)\<lparr>mdata := chiddot_m\<rparr>\<rparr>)"









section \<open>The vocabulary of the statements\<close>

text \<open>
  The Klein-Gordon acceleration as the specification writes it, for a field \<open>f\<close> with
  mass-damping exponent \<open>md_e\<close>, mass \<open>m_f\<close> and couplings \<open>lambda_f\<close>, \<open>gamma_f\<close>, at scale
  factor \<open>sf\<close> and squared momentum \<open>k2\<close>; \<open>cross\<close> is the cross term and \<open>f_md\<close>, \<open>f3\<close>,
  \<open>f5\<close> are the mode's coefficients of the mass-damping, cubic and quintic products.
\<close>

definition klein_gordon ::
  "model_params \<Rightarrow> real \<Rightarrow> real \<Rightarrow> real \<Rightarrow> real \<Rightarrow> real \<Rightarrow> real \<Rightarrow> real \<Rightarrow> real \<Rightarrow>
   real \<Rightarrow> real \<Rightarrow> real \<Rightarrow> real \<Rightarrow> real \<Rightarrow> real" where
  "klein_gordon P md_e m_f lambda_f gamma_f sf sfdot sfddot k2 f f_md f3 cross f5 =
     - (sf powr (- 2 * rescale_s P - 2)) * k2 * f
     + rescale_r P * ((rescale_s P - rescale_r P + 2) * (sfdot / sf)\<^sup>2 + sfddot / sf) * f
     - sf powr (- 2 * rescale_s P - 2 * rescale_r P) / (rescale_B P)\<^sup>2 *
       ((if md_e \<noteq> 0 then sf powr (2 * rescale_r P) * f_md
         else m_f\<^sup>2 * sf powr (2 * rescale_r P) * f)
        + lambda_f / (rescale_A P)\<^sup>2 * f3
        + (g P / rescale_A P)\<^sup>2 * cross
        + gamma_f / (rescale_A P) ^ 4 * sf powr (- 2 * rescale_r P) * f5)"

text \<open>The threads of a launch, and the modes of the host loop, in the order they run.\<close>

definition grid3 :: "nat \<Rightarrow> nat \<Rightarrow> nat \<Rightarrow> (nat \<times> nat \<times> nat) list" where
  "grid3 gx gy gz = List.product [0..<gx] (List.product [0..<gy] [0..<gz])"

text \<open>What the arrays a kernel writes hold at one index, and what one thread leaves there.\<close>

definition cell4 ::
  "complex_array \<times> complex_array \<times> complex_array \<times> complex_array \<Rightarrow> nat \<Rightarrow>
   fftw_complex \<times> fftw_complex \<times> fftw_complex \<times> fftw_complex" where
  "cell4 s i = (case s of (p, q, r, u) \<Rightarrow> (p i, q i, r i, u i))"

definition step_kernel_cell ::
  "model_params \<Rightarrow> complex_array \<Rightarrow> complex_array \<Rightarrow> complex_array \<Rightarrow> complex_array \<Rightarrow>
   complex_array \<Rightarrow> complex_array \<Rightarrow> complex_array \<Rightarrow> complex_array \<Rightarrow>
   complex_array \<Rightarrow> complex_array \<Rightarrow> complex_array \<Rightarrow> complex_array \<Rightarrow>
   real \<Rightarrow> real \<Rightarrow> real \<Rightarrow> real \<Rightarrow> nat \<Rightarrow> nat \<Rightarrow> nat \<Rightarrow> nat \<Rightarrow>
   fftw_complex \<times> fftw_complex \<times> fftw_complex \<times> fftw_complex" where
  "step_kernel_cell P php chp c2p p2c ph3p ch3p ph5p ch5p pmd cmd pds cds sf sfdot sfddot h N x y z =
   (let i = mode_idx N x y z; k2 = mode_mom2 P N x y z;
        ap = (\<lambda>c. klein_gordon P (md_e_phi P) (m_phi P) (lambda_phi P) (gamma_phi P)
               sf sfdot sfddot k2 (rd php i c) (rd pmd i c) (rd ph3p i c) (rd c2p i c) (rd ph5p i c));
        ac = (\<lambda>c. klein_gordon P (md_e_chi P) (m_chi P) (lambda_chi P) (gamma_chi P)
               sf sfdot sfddot k2 (rd chp i c) (rd cmd i c) (rd ch3p i c) (rd p2c i c) (rd ch5p i c))
    in ((rd pds i 0 + 0.5 * ap 0 * h, rd pds i 1 + 0.5 * ap 1 * h),
        (rd cds i 0 + 0.5 * ac 0 * h, rd cds i 1 + 0.5 * ac 1 * h),
        (ap 0, ap 1), (ac 0, ac 1)))"

definition cell2 ::
  "complex_array \<times> complex_array \<Rightarrow> nat \<Rightarrow> fftw_complex \<times> fftw_complex" where
  "cell2 s i = (case s of (p, q) \<Rightarrow> (p i, q i))"

definition init_kernel_cell ::
  "model_params \<Rightarrow> complex_array \<Rightarrow> complex_array \<Rightarrow> complex_array \<Rightarrow> complex_array \<Rightarrow>
   complex_array \<Rightarrow> complex_array \<Rightarrow> complex_array \<Rightarrow> complex_array \<Rightarrow>
   complex_array \<Rightarrow> complex_array \<Rightarrow>
   real \<Rightarrow> real \<Rightarrow> real \<Rightarrow> nat \<Rightarrow> nat \<Rightarrow> nat \<Rightarrow> nat \<Rightarrow> fftw_complex \<times> fftw_complex" where
  "init_kernel_cell P php chp c2p p2c ph3p ch3p ph5p ch5p pmd cmd sf sfdot sfddot N x y z =
   (let i = mode_idx N x y z; k2 = mode_mom2 P N x y z;
        ap = (\<lambda>c. klein_gordon P (md_e_phi P) (m_phi P) (lambda_phi P) (gamma_phi P)
               sf sfdot sfddot k2 (rd php i c) (rd pmd i c) (rd ph3p i c) (rd c2p i c) (rd ph5p i c));
        ac = (\<lambda>c. klein_gordon P (md_e_chi P) (m_chi P) (lambda_chi P) (gamma_chi P)
               sf sfdot sfddot k2 (rd chp i c) (rd cmd i c) (rd ch3p i c) (rd p2c i c) (rd ch5p i c))
    in ((ap 0, ap 1), (ac 0, ac 1)))"

text \<open>
  The parity weight of the half grid, what the host loop leaves at one index, and the two
  sums it carries.
\<close>

definition parity_weight :: "nat \<Rightarrow> nat \<Rightarrow> real" where
  "parity_weight N z = (if z = 0 \<or> z = N div 2 then 1 else 2)"

definition cell6 ::
  "complex_array \<times> complex_array \<times> complex_array \<times> complex_array \<times> real \<times> real \<Rightarrow> nat \<Rightarrow>
   fftw_complex \<times> fftw_complex \<times> fftw_complex \<times> fftw_complex" where
  "cell6 s i = (case s of (p, q, r, u, sp, sq) \<Rightarrow> (p i, q i, r i, u i))"

definition sum_phi_of ::
  "complex_array \<times> complex_array \<times> complex_array \<times> complex_array \<times> real \<times> real \<Rightarrow> real" where
  "sum_phi_of s = (case s of (p, q, r, u, sp, sq) \<Rightarrow> sp)"

definition sum_chi_of ::
  "complex_array \<times> complex_array \<times> complex_array \<times> complex_array \<times> real \<times> real \<Rightarrow> real" where
  "sum_chi_of s = (case s of (p, q, r, u, sp, sq) \<Rightarrow> sq)"

definition loop_cell ::
  "real \<Rightarrow> complex_array \<Rightarrow> complex_array \<Rightarrow> complex_array \<Rightarrow> complex_array \<Rightarrow> nat \<Rightarrow>
   fftw_complex \<times> fftw_complex \<times> fftw_complex \<times> fftw_complex \<Rightarrow>
   fftw_complex \<times> fftw_complex \<times> fftw_complex \<times> fftw_complex" where
  "loop_cell h pd pdd cd cdd i old =
     (case old of (pv, cv, psv, csv) \<Rightarrow>
      let ps = (fst (pd i) + 0.5 * fst (pdd i) * h, snd (pd i) + 0.5 * snd (pdd i) * h);
          cs = (fst (cd i) + 0.5 * fst (cdd i) * h, snd (cd i) + 0.5 * snd (cdd i) * h)
      in ((fst pv + fst ps * h, snd pv + snd ps * h),
          (fst cv + fst cs * h, snd cv + snd cs * h), ps, cs))"

definition norm2 :: "fftw_complex \<Rightarrow> real" where
  "norm2 w = (fst w)\<^sup>2 + (snd w)\<^sup>2"

text \<open>Parameters and arrays on which the statements are run.\<close>

definition demo_params :: model_params where
  "demo_params = \<lparr>rescale_A = 1, rescale_B = 1, rescale_r = 1, rescale_s = 1,
     m_phi = 1, m_chi = 1, lambda_phi = 1, lambda_chi = 0, g = 1,
     gamma_phi = 0, gamma_chi = 0, md_e_phi = 0, md_e_chi = 0, dp = 1\<rparr>"

definition demo_array :: "real \<Rightarrow> real \<Rightarrow> complex_array" where
  "demo_array re im = (\<lambda>i. (re, im))"

definition demo_field :: field where
  "demo_field = \<lparr>state = momentum, data = (\<lambda>i. 0), mdata = demo_array 0 0\<rparr>"

definition demo_nlt :: nonlinear_transformer where
  "demo_nlt = \<lparr>chi2phi = demo_field, phi2chi = demo_field, phi3 = demo_field,
     chi3 = demo_field, phi5 = demo_field, chi5 = demo_field,
     phi_md = demo_field, chi_md = demo_field\<rparr>"

definition demo_env :: env where
  "demo_env = \<lparr>r2c = (\<lambda>d i. (0, 0)), c2r = (\<lambda>m i. 0),
     adoubledot = (\<lambda>P tt sf sfdot gp gc pot. 0),
     adoubledot_staggered = (\<lambda>P tt h sf sfdot gp gc pot. 0),
     avg_gradients = (\<lambda>sz P p q gp gc. ((gp, gc), p, q)),
     integrate = (\<lambda>p q sf. (0, p, q)),
     transform = (\<lambda>nl p q sf. (nl, p, q)),
     gc_compute = (\<lambda>gr p q. (gr, p, q)),
     V = (\<lambda>p q sf. 0),
     fresh_memory = (\<lambda>i. 0)\<rparr>"

definition demo_verlet :: verlet where
  "demo_verlet = \<lparr>ts = \<lparr>t = 0, a = 1, adot = 1, addot = 0, dt = 1, physical_time = 0\<rparr>,
     phi = demo_field\<lparr>mdata := demo_array 1 1\<rparr>,
     phidot = demo_field\<lparr>mdata := demo_array 1 2\<rparr>,
     chi = demo_field\<lparr>mdata := demo_array 2 2\<rparr>,
     chidot = demo_field\<lparr>mdata := demo_array 3 1\<rparr>,
     fs = \<lparr>n = 4, total_gridpoints = 64\<rparr>, mp = demo_params,
     phiddot = demo_field\<lparr>mdata := demo_array 3 4\<rparr>, phidot_staggered = demo_field,
     chiddot = demo_field\<lparr>mdata := demo_array 2 6\<rparr>, chidot_staggered = demo_field,
     nlt = demo_nlt,
     addot = 0, adot_staggered = 0, dptdt = 1, ddptdt = - 1, dptdt_staggered = 0\<rparr>"




definition demo_config :: build_config where
  "demo_config = \<lparr>RESCALE_A = 4, RESCALE_B = 1, RESCALE_R = 1, RESCALE_S = 1,
     NGRIDSIZE = 4, BEGIN_OUTPUT_TIME = 0, ENABLE_CHI = True\<rparr>"

definition demo_position_field :: "real \<Rightarrow> field" where
  "demo_position_field c = \<lparr>state = position, data = (\<lambda>i. c), mdata = demo_array 0 0\<rparr>"

definition demo_gc :: grad_computer where
  "demo_gc = \<lparr>phigradx = demo_position_field 0, chigradx = demo_position_field 0,
     phigrady = demo_position_field 0, chigrady = demo_position_field 0,
     phigradz = demo_position_field 0, chigradz = demo_position_field 0\<rparr>"

definition demo_manager :: slice_output_manager where
  "demo_manager = \<lparr>ts = \<lparr>t = 0, a = 1, adot = 1, addot = 0, dt = 1, physical_time = 0\<rparr>,
     phi = demo_position_field 2, phidot = demo_position_field 0,
     chi = demo_position_field 0, chidot = demo_position_field 0,
     gc = demo_gc, bin_idx = 7\<rparr>"

definition demo_world :: world where
  "demo_world = \<lparr>files = (\<lambda>name. None), stderr = [], stdout = []\<rparr>"

definition io_ok :: io where
  "io_ok = \<lparr>open_ok = (\<lambda>name. True), malloc_ok = (\<lambda>name. True),
     pwrite_count = (\<lambda>name. Some 64)\<rparr>"

definition io_open_fails :: io where
  "io_open_fails = \<lparr>open_ok = (\<lambda>name. False), malloc_ok = (\<lambda>name. True),
     pwrite_count = (\<lambda>name. Some 64)\<rparr>"

definition io_write_fails :: io where
  "io_write_fails = \<lparr>open_ok = (\<lambda>name. True), malloc_ok = (\<lambda>name. True),
     pwrite_count = (\<lambda>name. None)\<rparr>"

section \<open>Reading and writing cells\<close>

lemma rd_wr: "rd (wr p i c v) j c' = (if j = i \<and> (c' = 0 \<longleftrightarrow> c = 0) then v else rd p j c')"
  by (simp add: rd_def wr_def)

lemma wr_wr_cell: "wr (wr p i 0 v0) i (Suc 0) v1 = p(i := (v0, v1))"
  by (simp add: wr_def fun_eq_iff)

lemma wr_apply:
  "wr p i c v j = (if j = i then (if c = 0 then (v, snd (p i)) else (fst (p i), v)) else p j)"
  by (simp add: wr_def)

section \<open>Loops that write one cell per iteration\<close>

lemma fold_product:
  "fold (\<lambda>x. fold (\<lambda>y. f x y) ys) xs s = fold (\<lambda>(x, y). f x y) (List.product xs ys) s"
proof (induction xs arbitrary: s)
  case Nil
  show ?case by simp
next
  case (Cons x xs)
  have "fold (\<lambda>(x, y). f x y) (map (Pair x) ys) s = fold (f x) ys s"
    by (simp add: fold_map comp_def)
  with Cons show ?case by simp
qed

lemma launch_grid3: "launch gx gy bx th s = fold (\<lambda>(x, y, z). th x y z) (grid3 gx gy bx) s"
proof -
  have "(\<lambda>x. fold (\<lambda>y. fold (\<lambda>z. th x y z) [0..<bx]) [0..<gy]) =
        (\<lambda>x. fold (\<lambda>(y, z). th x y z) (List.product [0..<gy] [0..<bx]))"
    by (simp add: fun_eq_iff fold_product)
  then show ?thesis
    by (simp add: launch_def grid3_def fold_product[of "\<lambda>x (y, z). th x y z"])
qed

lemma set_grid3: "set (grid3 gx gy gz) = {(x, y, z). x < gx \<and> y < gy \<and> z < gz}"
  by (auto simp: grid3_def)

lemma distinct_grid3: "distinct (grid3 gx gy gz)"
  by (simp add: grid3_def distinct_product)

lemma fold_point_frame:
  assumes frame: "\<And>w s i. i \<noteq> key w \<Longrightarrow> cell (B w s) i = cell s i"
  shows "i \<notin> key ` set ws \<Longrightarrow> cell (fold B ws s) i = cell s i"
  by (induction ws arbitrary: s) (auto simp: frame)

lemma fold_point_local:
  assumes frame: "\<And>w s i. i \<noteq> key w \<Longrightarrow> cell (B w s) i = cell s i"
      and loc: "\<And>w s. cell (B w s) (key w) = F w (cell s (key w))"
  shows "distinct (map key ws) \<Longrightarrow> w \<in> set ws \<Longrightarrow>
         cell (fold B ws s) (key w) = F w (cell s (key w))"
proof (induction ws arbitrary: s)
  case Nil
  then show ?case by simp
next
  case (Cons u us)
  show ?case
  proof (cases "w \<in> set us")
    case True
    then have "key w \<in> key ` set us" by (rule imageI)
    with Cons.prems have "key w \<noteq> key u" by auto
    with Cons True show ?thesis by (simp add: frame)
  next
    case False
    with Cons.prems have tu: "w = u" and "key u \<notin> key ` set us" by auto
    then show ?thesis
      using fold_point_frame[of key cell B "key u" us "B u s", OF frame] by (simp add: loc)
  qed
qed

lemma fold_point_sum:
  fixes acc :: "'s \<Rightarrow> real"
  assumes frame: "\<And>w s i. i \<noteq> key w \<Longrightarrow> cell (B w s) i = cell s i"
      and loc: "\<And>w s. cell (B w s) (key w) = F w (cell s (key w))"
      and acc: "\<And>w s. acc (B w s) = acc s + W w (cell (B w s) (key w))"
  shows "distinct (map key ws) \<Longrightarrow>
         acc (fold B ws s) = acc s + (\<Sum>w\<leftarrow>ws. W w (F w (cell s (key w))))"
proof (induction ws arbitrary: s)
  case Nil
  then show ?case by simp
next
  case (Cons u us)
  then have d: "distinct (map key us)" and nu: "key u \<notin> key ` set us" by auto
  have "\<And>w. w \<in> set us \<Longrightarrow> cell (B u s) (key w) = cell s (key w)"
  proof -
    fix w assume "w \<in> set us"
    then have "key w \<in> key ` set us" by (rule imageI)
    with nu have "key w \<noteq> key u" by auto
    then show "cell (B u s) (key w) = cell s (key w)" by (rule frame)
  qed
  then have "(\<Sum>w\<leftarrow>us. W w (F w (cell (B u s) (key w)))) = (\<Sum>w\<leftarrow>us. W w (F w (cell s (key w))))"
    by (intro arg_cong[where f = sum_list] map_cong) auto
  then show ?case
    using Cons.IH[OF d, of "B u s"] by (simp add: acc loc)
qed

lemma fold_point_schedule:
  assumes frame: "\<And>w s i. i \<noteq> key w \<Longrightarrow> cell (B w s) i = cell s i"
      and loc: "\<And>w s. cell (B w s) (key w) = F w (cell s (key w))"
      and d: "distinct (map key ws)" and d': "distinct (map key ws')"
      and same: "set ws' = set ws"
  shows "cell (fold B ws' s) i = cell (fold B ws s) i"
proof (cases "i \<in> key ` set ws")
  case True
  then obtain w where w: "w \<in> set ws" "i = key w" by auto
  have "cell (fold B ws s) (key w) = F w (cell s (key w))"
    using frame loc d w(1) by (rule fold_point_local)
  moreover have "cell (fold B ws' s) (key w) = F w (cell s (key w))"
    using frame loc d' w(1) unfolding same[symmetric] by (rule fold_point_local)
  ultimately show ?thesis using w(2) by simp
next
  case False
  then have "cell (fold B ws s) i = cell s i"
    using frame by (rule fold_point_frame[rotated])
  moreover from False have "i \<notin> key ` set ws'" by (simp add: same)
  then have "cell (fold B ws' s) i = cell s i"
    using frame by (rule fold_point_frame[rotated])
  ultimately show ?thesis by simp
qed

lemma grid_index_inj:
  assumes "(z::nat) < M" "z' < M" "(y::nat) < N" "y' < N"
      and "z + M * (y + N * x) = z' + M * (y' + N * x')"
  shows "x = x' \<and> y = y' \<and> z = z'"
proof -
  have "(z + M * (y + N * x)) mod M = (z' + M * (y' + N * x')) mod M"
    using assms(5) by simp
  then have z: "z = z'" using assms(1,2) by simp
  with assms(5) have "M * (y + N * x) = M * (y' + N * x')" by simp
  moreover have "0 < M" using assms(1) by simp
  ultimately have e2: "y + N * x = y' + N * x'" by simp
  then have "(y + N * x) mod N = (y' + N * x') mod N" by simp
  then have y: "y = y'" using assms(3,4) by simp
  with e2 assms(3) have "x = x'" by auto
  with y z show ?thesis by simp
qed

lemma mode_idx_inj:
  assumes "z < N div 2 + 1" "z' < N div 2 + 1" "y < N" "y' < N"
      and "mode_idx N x y z = mode_idx N x' y' z'"
  shows "x = x' \<and> y = y' \<and> z = z'"
  using assms(5) unfolding mode_idx_def by (rule grid_index_inj[OF assms(1-4)])

lemma distinct_mode_idx: "distinct (map (\<lambda>(x, y, z). mode_idx N x y z) (grid3 N N (N div 2 + 1)))"
  unfolding distinct_map
proof (intro conjI distinct_grid3 inj_onI)
  fix u w
  assume "u \<in> set (grid3 N N (N div 2 + 1))" "w \<in> set (grid3 N N (N div 2 + 1))"
     and "(case u of (x, y, z) \<Rightarrow> mode_idx N x y z) = (case w of (x, y, z) \<Rightarrow> mode_idx N x y z)"
  then show "u = w"
    using mode_idx_inj[of "snd (snd u)" N "snd (snd w)" "fst (snd u)" "fst (snd w)" "fst u" "fst w"]
    by (auto simp: set_grid3)
qed

section \<open>The accelerations are the Klein-Gordon formula\<close>

lemma dphidotdt_klein_gordon:
  "dphidotdt f h cross f3 f5 f_md sf sfdot sfddot k2 P =
   klein_gordon P (md_e_phi P) (m_phi P) (lambda_phi P) (gamma_phi P)
     sf sfdot sfddot k2 f f_md f3 cross f5"
  by (simp add: dphidotdt_def klein_gordon_def pow_def pow2_def pow4_def power2_eq_square
      power4_eq_xxxx)

lemma dchidotdt_klein_gordon:
  "dchidotdt h f cross f3 f5 f_md sf sfdot sfddot k2 P =
   klein_gordon P (md_e_chi P) (m_chi P) (lambda_chi P) (gamma_chi P)
     sf sfdot sfddot k2 f f_md f3 cross f5"
  by (simp add: dchidotdt_def klein_gordon_def pow_def pow2_def pow4_def power2_eq_square
      power4_eq_xxxx)

lemma klein_gordon_gate_f3:
  "klein_gordon P md_e m_f lambda_f gamma_f sf sfdot sfddot k2 f f_md
     (if lambda_f \<noteq> 0 then f3 else 0) cross f5 =
   klein_gordon P md_e m_f lambda_f gamma_f sf sfdot sfddot k2 f f_md f3 cross f5"
  by (simp add: klein_gordon_def)

lemma klein_gordon_gate_f5:
  "klein_gordon P md_e m_f lambda_f gamma_f sf sfdot sfddot k2 f f_md
     f3 cross (if gamma_f \<noteq> 0 then f5 else 0) =
   klein_gordon P md_e m_f lambda_f gamma_f sf sfdot sfddot k2 f f_md f3 cross f5"
  by (simp add: klein_gordon_def)

lemma klein_gordon_gate_md:
  "klein_gordon P md_e m_f lambda_f gamma_f sf sfdot sfddot k2 f
     (if md_e \<noteq> 0 then f_md else 0) f3 cross f5 =
   klein_gordon P md_e m_f lambda_f gamma_f sf sfdot sfddot k2 f f_md f3 cross f5"
  by (simp add: klein_gordon_def)

lemma code_mom2:
  "pow2 (dp P) * real_of_int (pow2 (if x \<le> N div 2 then int x else int x - int N) +
      pow2 (if y \<le> N div 2 then int y else int y - int N) + pow2 (int z)) =
   mode_mom2 P N x y z"
  by (simp add: mode_mom2_def centred_def Let_def)

lemma upt_2: "[0..<2] = [0, Suc 0]"
  by (simp add: upt_rec)

lemma verlet_step_kernel_thread:
  "verlet_step_kernel P php chp c2p p2c ph3p ch3p ph5p ch5p pmd cmd pds cds sf sfdot sfddot h N
     x y z (pd, cd, pdd, cdd) =
   (let i = mode_idx N x y z; k2 = mode_mom2 P N x y z;
        ap = (\<lambda>c. klein_gordon P (md_e_phi P) (m_phi P) (lambda_phi P) (gamma_phi P)
               sf sfdot sfddot k2 (rd php i c) (rd pmd i c) (rd ph3p i c) (rd c2p i c) (rd ph5p i c));
        ac = (\<lambda>c. klein_gordon P (md_e_chi P) (m_chi P) (lambda_chi P) (gamma_chi P)
               sf sfdot sfddot k2 (rd chp i c) (rd cmd i c) (rd ch3p i c) (rd p2c i c) (rd ch5p i c))
    in (pd(i := (rd pds i 0 + 0.5 * ap 0 * h, rd pds i 1 + 0.5 * ap 1 * h)),
        cd(i := (rd cds i 0 + 0.5 * ac 0 * h, rd cds i 1 + 0.5 * ac 1 * h)),
        pdd(i := (ap 0, ap 1)),
        cdd(i := (ac 0, ac 1))))"
  unfolding verlet_step_kernel_def Let_def code_mom2 upt_2 mode_idx_def[symmetric]
  by (simp add: dphidotdt_klein_gordon dchidotdt_klein_gordon klein_gordon_gate_f3
      klein_gordon_gate_f5 klein_gordon_gate_md rd_wr wr_wr_cell)


lemma verlet_step_kernel_launch:
  assumes "x < N" "y < N" "z \<le> N div 2"
  shows "cell4 (launch N N (N div 2 + 1)
           (verlet_step_kernel P php chp c2p p2c ph3p ch3p ph5p ch5p pmd cmd pds cds sf sfdot sfddot h N) s)
           (mode_idx N x y z) =
         step_kernel_cell P php chp c2p p2c ph3p ch3p ph5p ch5p pmd cmd pds cds sf sfdot sfddot h N x y z"
proof -
  let ?B = "\<lambda>(x, y, z).
     verlet_step_kernel P php chp c2p p2c ph3p ch3p ph5p ch5p pmd cmd pds cds sf sfdot sfddot h N x y z"
  let ?key = "\<lambda>(x, y, z). mode_idx N x y z"
  let ?F = "\<lambda>(x, y, z) (old :: fftw_complex \<times> fftw_complex \<times> fftw_complex \<times> fftw_complex).
     step_kernel_cell P php chp c2p p2c ph3p ch3p ph5p ch5p pmd cmd pds cds sf sfdot sfddot h N x y z"
  have frame: "\<And>w s i. i \<noteq> ?key w \<Longrightarrow> cell4 (?B w s) i = cell4 s i"
    by (auto simp: cell4_def verlet_step_kernel_thread Let_def split: prod.splits)
  have loc: "\<And>w s. cell4 (?B w s) (?key w) = ?F w (cell4 s (?key w))"
    by (auto simp: cell4_def verlet_step_kernel_thread step_kernel_cell_def Let_def
        split: prod.splits)
  have mem: "(x, y, z) \<in> set (grid3 N N (N div 2 + 1))"
    using assms by (simp add: set_grid3)
  show ?thesis
    using fold_point_local[of ?key cell4 ?B ?F "grid3 N N (N div 2 + 1)" "(x, y, z)" s,
        OF frame loc distinct_mode_idx mem]
    by (simp add: launch_grid3)
qed

lemma verlet_step_kernel_schedule:
  assumes "distinct ws'" "set ws' = set (grid3 N N (N div 2 + 1))"
  shows "cell4 (fold (\<lambda>(x, y, z).
             verlet_step_kernel P php chp c2p p2c ph3p ch3p ph5p ch5p pmd cmd pds cds
               sf sfdot sfddot h N x y z) ws' s) i =
         cell4 (launch N N (N div 2 + 1)
            (verlet_step_kernel P php chp c2p p2c ph3p ch3p ph5p ch5p pmd cmd pds cds
               sf sfdot sfddot h N) s) i"
proof -
  let ?B = "\<lambda>(x, y, z).
     verlet_step_kernel P php chp c2p p2c ph3p ch3p ph5p ch5p pmd cmd pds cds sf sfdot sfddot h N x y z"
  let ?key = "\<lambda>(x, y, z). mode_idx N x y z"
  let ?F = "\<lambda>(x, y, z) (old :: fftw_complex \<times> fftw_complex \<times> fftw_complex \<times> fftw_complex).
     step_kernel_cell P php chp c2p p2c ph3p ch3p ph5p ch5p pmd cmd pds cds sf sfdot sfddot h N x y z"
  have frame: "\<And>w s i. i \<noteq> ?key w \<Longrightarrow> cell4 (?B w s) i = cell4 s i"
    by (auto simp: cell4_def verlet_step_kernel_thread Let_def split: prod.splits)
  have loc: "\<And>w s. cell4 (?B w s) (?key w) = ?F w (cell4 s (?key w))"
    by (auto simp: cell4_def verlet_step_kernel_thread step_kernel_cell_def Let_def
        split: prod.splits)
  have inj: "inj_on ?key (set (grid3 N N (N div 2 + 1)))"
    using distinct_mode_idx[of N] by (simp add: distinct_map)
  have d': "distinct (map ?key ws')"
    using assms inj by (simp add: distinct_map)
  show ?thesis
    using fold_point_schedule[of ?key cell4 ?B ?F "grid3 N N (N div 2 + 1)" ws' s i,
        OF frame loc distinct_mode_idx d' assms(2)]
    by (simp add: launch_grid3)
qed

lemma verlet_init_kernel_thread:
  "verlet_init_kernel P php chp c2p p2c ph3p ch3p ph5p ch5p pmd cmd sf sfdot sfddot N
     x y z (pdd, cdd) =
   (let i = mode_idx N x y z; k2 = mode_mom2 P N x y z;
        ap = (\<lambda>c. klein_gordon P (md_e_phi P) (m_phi P) (lambda_phi P) (gamma_phi P)
               sf sfdot sfddot k2 (rd php i c) (rd pmd i c) (rd ph3p i c) (rd c2p i c) (rd ph5p i c));
        ac = (\<lambda>c. klein_gordon P (md_e_chi P) (m_chi P) (lambda_chi P) (gamma_chi P)
               sf sfdot sfddot k2 (rd chp i c) (rd cmd i c) (rd ch3p i c) (rd p2c i c) (rd ch5p i c))
    in (pdd(i := (ap 0, ap 1)), cdd(i := (ac 0, ac 1))))"
  unfolding verlet_init_kernel_def Let_def code_mom2 upt_2 mode_idx_def[symmetric]
  by (simp add: dphidotdt_klein_gordon dchidotdt_klein_gordon klein_gordon_gate_f3
      klein_gordon_gate_f5 klein_gordon_gate_md rd_wr wr_wr_cell)

lemma verlet_init_kernel_launch:
  assumes "x < N" "y < N" "z \<le> N div 2"
  shows "cell2 (launch N N (N div 2 + 1)
           (verlet_init_kernel P php chp c2p p2c ph3p ch3p ph5p ch5p pmd cmd sf sfdot sfddot N) s)
           (mode_idx N x y z) =
         init_kernel_cell P php chp c2p p2c ph3p ch3p ph5p ch5p pmd cmd sf sfdot sfddot N x y z"
proof -
  let ?B = "\<lambda>(x, y, z).
     verlet_init_kernel P php chp c2p p2c ph3p ch3p ph5p ch5p pmd cmd sf sfdot sfddot N x y z"
  let ?key = "\<lambda>(x, y, z). mode_idx N x y z"
  let ?F = "\<lambda>(x, y, z) (old :: fftw_complex \<times> fftw_complex).
     init_kernel_cell P php chp c2p p2c ph3p ch3p ph5p ch5p pmd cmd sf sfdot sfddot N x y z"
  have frame: "\<And>w s i. i \<noteq> ?key w \<Longrightarrow> cell2 (?B w s) i = cell2 s i"
    by (auto simp: cell2_def verlet_init_kernel_thread Let_def split: prod.splits)
  have loc: "\<And>w s. cell2 (?B w s) (?key w) = ?F w (cell2 s (?key w))"
    by (auto simp: cell2_def verlet_init_kernel_thread init_kernel_cell_def Let_def
        split: prod.splits)
  have mem: "(x, y, z) \<in> set (grid3 N N (N div 2 + 1))"
    using assms by (simp add: set_grid3)
  show ?thesis
    using fold_point_local[of ?key cell2 ?B ?F "grid3 N N (N div 2 + 1)" "(x, y, z)" s,
        OF frame loc distinct_mode_idx mem]
    by (simp add: launch_grid3)
qed

text \<open>
  C1. For every stored mode \<open>(x, y, z)\<close> of the Hermitian-packed grid and both components,
  the acceleration that \<^verbatim>\<open>dphidotdt\<close> computes in the step kernel and in the initialisation
  kernel is the Klein-Gordon formula \<open>klein_gordon\<close> at the squared momentum
  \<open>dp\<^sup>2 (px\<^sup>2 + py\<^sup>2 + pz\<^sup>2)\<close> of the centred indices, with the mass term chosen by
  \<open>md_e_phi\<close>, and \<^verbatim>\<open>dchidotdt\<close> computes the same formula with the two fields exchanged.
\<close>

theorem accelerations_are_klein_gordon:
  assumes "x < N" "y < N" "z \<le> N div 2" "c < 2"
  shows "(case launch N N (N div 2 + 1)
            (verlet_step_kernel P php chp c2p p2c ph3p ch3p ph5p ch5p pmd cmd pds cds
               sf sfdot sfddot h N) (pd, cd, pdd, cdd) of
          (pd', cd', pdd', cdd') \<Rightarrow>
            rd pdd' (mode_idx N x y z) c =
              klein_gordon P (md_e_phi P) (m_phi P) (lambda_phi P) (gamma_phi P)
                sf sfdot sfddot (mode_mom2 P N x y z)
                (rd php (mode_idx N x y z) c) (rd pmd (mode_idx N x y z) c)
                (rd ph3p (mode_idx N x y z) c) (rd c2p (mode_idx N x y z) c)
                (rd ph5p (mode_idx N x y z) c) \<and>
            rd cdd' (mode_idx N x y z) c =
              klein_gordon P (md_e_chi P) (m_chi P) (lambda_chi P) (gamma_chi P)
                sf sfdot sfddot (mode_mom2 P N x y z)
                (rd chp (mode_idx N x y z) c) (rd cmd (mode_idx N x y z) c)
                (rd ch3p (mode_idx N x y z) c) (rd p2c (mode_idx N x y z) c)
                (rd ch5p (mode_idx N x y z) c)) \<and>
         (case launch N N (N div 2 + 1)
            (verlet_init_kernel P php chp c2p p2c ph3p ch3p ph5p ch5p pmd cmd
               sf sfdot sfddot N) (pdd, cdd) of
          (pdd', cdd') \<Rightarrow>
            rd pdd' (mode_idx N x y z) c =
              klein_gordon P (md_e_phi P) (m_phi P) (lambda_phi P) (gamma_phi P)
                sf sfdot sfddot (mode_mom2 P N x y z)
                (rd php (mode_idx N x y z) c) (rd pmd (mode_idx N x y z) c)
                (rd ph3p (mode_idx N x y z) c) (rd c2p (mode_idx N x y z) c)
                (rd ph5p (mode_idx N x y z) c) \<and>
            rd cdd' (mode_idx N x y z) c =
              klein_gordon P (md_e_chi P) (m_chi P) (lambda_chi P) (gamma_chi P)
                sf sfdot sfddot (mode_mom2 P N x y z)
                (rd chp (mode_idx N x y z) c) (rd cmd (mode_idx N x y z) c)
                (rd ch3p (mode_idx N x y z) c) (rd p2c (mode_idx N x y z) c)
                (rd ch5p (mode_idx N x y z) c))"
proof -
  have c: "c = 0 \<or> c = Suc 0" using assms(4) by auto
  have "cell4 (launch N N (N div 2 + 1)
           (verlet_step_kernel P php chp c2p p2c ph3p ch3p ph5p ch5p pmd cmd pds cds
              sf sfdot sfddot h N) (pd, cd, pdd, cdd)) (mode_idx N x y z) =
        step_kernel_cell P php chp c2p p2c ph3p ch3p ph5p ch5p pmd cmd pds cds sf sfdot sfddot h N x y z"
    using assms(1-3) by (rule verlet_step_kernel_launch)
  moreover have "cell2 (launch N N (N div 2 + 1)
           (verlet_init_kernel P php chp c2p p2c ph3p ch3p ph5p ch5p pmd cmd
              sf sfdot sfddot N) (pdd, cdd)) (mode_idx N x y z) =
        init_kernel_cell P php chp c2p p2c ph3p ch3p ph5p ch5p pmd cmd sf sfdot sfddot N x y z"
    using assms(1-3) by (rule verlet_init_kernel_launch)
  ultimately show ?thesis
    using c
    by (auto simp: cell4_def cell2_def step_kernel_cell_def init_kernel_cell_def Let_def rd_def
        split: prod.splits)
qed

theorem accelerations_are_klein_gordon_witness:
  "(3::nat) < 4 \<and> (1::nat) < 4 \<and> (2::nat) \<le> 4 div 2 \<and> (1::nat) < 2 \<and>
   (case launch 4 4 (4 div 2 + 1)
      (verlet_step_kernel demo_params (demo_array 1 2) (demo_array 1 1)
         (demo_array 1 1) (demo_array 1 1) (demo_array 1 1) (demo_array 1 1)
         (demo_array 1 1) (demo_array 1 1) (demo_array 1 1) (demo_array 1 1)
         (demo_array 0 0) (demo_array 0 0) 1 1 1 (1 / 2) 4)
      (demo_array 0 0, demo_array 0 0, demo_array 0 0, demo_array 0 0) of
    (pd', cd', pdd', cdd') \<Rightarrow> rd pdd' 41 1 = - 10 \<and> rd cdd' 41 1 = - 5) \<and>
   (case launch 4 4 (4 div 2 + 1)
      (verlet_init_kernel demo_params (demo_array 1 2) (demo_array 1 1)
         (demo_array 1 1) (demo_array 1 1) (demo_array 1 1) (demo_array 1 1)
         (demo_array 1 1) (demo_array 1 1) (demo_array 1 1) (demo_array 1 1) 1 1 1 4)
      (demo_array 0 0, demo_array 0 0) of
    (pdd', cdd') \<Rightarrow> rd pdd' 41 1 = - 10 \<and> rd cdd' 41 1 = - 5)"
  using accelerations_are_klein_gordon[where x = 3 and N = 4 and y = 1 and z = 2 and c = 1
      and P = demo_params and php = "demo_array 1 2" and chp = "demo_array 1 1"
      and c2p = "demo_array 1 1" and p2c = "demo_array 1 1" and ph3p = "demo_array 1 1"
      and ch3p = "demo_array 1 1" and ph5p = "demo_array 1 1" and ch5p = "demo_array 1 1"
      and pmd = "demo_array 1 1" and cmd = "demo_array 1 1"
      and pds = "demo_array 0 0" and cds = "demo_array 0 0"
      and sf = 1 and sfdot = 1 and sfddot = 1 and h = "1 / 2"
      and pd = "demo_array 0 0" and cd = "demo_array 0 0"
      and pdd = "demo_array 0 0" and cdd = "demo_array 0 0"]
  by (simp add: klein_gordon_def mode_idx_def mode_mom2_def centred_def pow2_def
      demo_params_def demo_array_def rd_def)

section \<open>The host loop\<close>

lemma step_loop_body_explicit:
  "step_loop_body P N h pd pdd cd cdd x y z (ph, ch, pds, cds, sp, sq) =
   (let i = mode_idx N x y z;
        new = loop_cell h pd pdd cd cdd i (ph i, ch i, pds i, cds i);
        k = mode_mom2 P N x y z * parity_weight N z
    in (ph(i := fst new), ch(i := fst (snd new)),
        pds(i := fst (snd (snd new))), cds(i := snd (snd (snd new))),
        sp + k * norm2 (fst new), sq + k * norm2 (fst (snd new))))"
  unfolding step_loop_body_def Let_def code_mom2 upt_2 mode_idx_def[symmetric]
  by (simp add: rd_wr wr_wr_cell wr_apply loop_cell_def parity_weight_def norm2_def pow2_def
      power2_eq_square rd_def Let_def)

lemma step_loop_grid3:
  "step_loop P N h pd pdd cd cdd s =
   fold (\<lambda>(x, y, z). step_loop_body P N h pd pdd cd cdd x y z) (grid3 N N (N div 2 + 1)) s"
  using launch_grid3[of N N "N div 2 + 1" "step_loop_body P N h pd pdd cd cdd" s]
  by (simp add: step_loop_def launch_def)

lemma step_loop_frame:
  "i \<noteq> (case w of (x, y, z) \<Rightarrow> mode_idx N x y z) \<Longrightarrow>
   cell6 ((case w of (x, y, z) \<Rightarrow> step_loop_body P N h pd pdd cd cdd x y z) s) i = cell6 s i"
  by (cases s; cases w) (simp add: cell6_def step_loop_body_explicit Let_def)

lemma step_loop_local:
  "cell6 ((case w of (x, y, z) \<Rightarrow> step_loop_body P N h pd pdd cd cdd x y z) s)
     (case w of (x, y, z) \<Rightarrow> mode_idx N x y z) =
   (case w of (x, y, z) \<Rightarrow> loop_cell h pd pdd cd cdd (mode_idx N x y z))
     (cell6 s (case w of (x, y, z) \<Rightarrow> mode_idx N x y z))"
  by (cases s; cases w) (simp add: cell6_def step_loop_body_explicit Let_def)

lemma step_loop_cell:
  assumes "x < N" "y < N" "z \<le> N div 2"
  shows "cell6 (step_loop P N h pd pdd cd cdd s) (mode_idx N x y z) =
         loop_cell h pd pdd cd cdd (mode_idx N x y z) (cell6 s (mode_idx N x y z))"
proof -
  have mem: "(x, y, z) \<in> set (grid3 N N (N div 2 + 1))"
    using assms by (simp add: set_grid3)
  show ?thesis
    using fold_point_local[where key = "\<lambda>(x, y, z). mode_idx N x y z" and cell = cell6
        and B = "\<lambda>(x, y, z). step_loop_body P N h pd pdd cd cdd x y z"
        and F = "\<lambda>(x, y, z). loop_cell h pd pdd cd cdd (mode_idx N x y z)"
        and ws = "grid3 N N (N div 2 + 1)" and w = "(x, y, z)" and s = s,
        OF step_loop_frame step_loop_local distinct_mode_idx mem]
    by (simp add: step_loop_grid3)
qed

lemma sum_list_product:
  fixes f :: "'a \<times> 'b \<Rightarrow> real"
  shows "(\<Sum>w\<leftarrow>List.product xs ys. f w) = (\<Sum>x\<leftarrow>xs. \<Sum>y\<leftarrow>ys. f (x, y))"
  by (induction xs) (simp_all add: comp_def)

lemma sum_list_upt: "(\<Sum>x\<leftarrow>[0..<k]. (f x :: real)) = (\<Sum>x<k. f x)"
  by (simp add: interv_sum_list_conv_sum_set_nat atLeast0LessThan)

lemma sum_list_grid3:
  fixes f :: "nat \<times> nat \<times> nat \<Rightarrow> real"
  shows "(\<Sum>w\<leftarrow>grid3 gx gy gz. f w) = (\<Sum>x<gx. \<Sum>y<gy. \<Sum>z<gz. f (x, y, z))"
  by (simp add: grid3_def sum_list_product sum_list_upt)

lemma step_loop_sum_phi:
  "sum_phi_of (step_loop P N h pd pdd cd cdd s) = sum_phi_of s +
   (\<Sum>x<N. \<Sum>y<N. \<Sum>z\<le>N div 2. parity_weight N z * mode_mom2 P N x y z *
      norm2 (fst (cell6 (step_loop P N h pd pdd cd cdd s) (mode_idx N x y z))))"
proof -
  have acc: "\<And>w s. sum_phi_of ((case w of (x, y, z) \<Rightarrow> step_loop_body P N h pd pdd cd cdd x y z) s) =
      sum_phi_of s + (case w of (x, y, z) \<Rightarrow> \<lambda>new. mode_mom2 P N x y z * parity_weight N z * norm2 (fst new))
        (cell6 ((case w of (x, y, z) \<Rightarrow> step_loop_body P N h pd pdd cd cdd x y z) s)
           (case w of (x, y, z) \<Rightarrow> mode_idx N x y z))"
    subgoal for w s
      by (cases s; cases w) (simp add: cell6_def sum_phi_of_def step_loop_body_explicit Let_def)
    done
  have "sum_phi_of (step_loop P N h pd pdd cd cdd s) = sum_phi_of s +
     (\<Sum>w\<leftarrow>grid3 N N (N div 2 + 1).
        (case w of (x, y, z) \<Rightarrow> \<lambda>new. mode_mom2 P N x y z * parity_weight N z * norm2 (fst new))
          ((case w of (x, y, z) \<Rightarrow> loop_cell h pd pdd cd cdd (mode_idx N x y z))
             (cell6 s (case w of (x, y, z) \<Rightarrow> mode_idx N x y z))))"
    using fold_point_sum[where key = "\<lambda>(x, y, z). mode_idx N x y z" and cell = cell6
        and B = "\<lambda>(x, y, z). step_loop_body P N h pd pdd cd cdd x y z"
        and F = "\<lambda>(x, y, z). loop_cell h pd pdd cd cdd (mode_idx N x y z)"
        and W = "\<lambda>(x, y, z) new. mode_mom2 P N x y z * parity_weight N z * norm2 (fst new)"
        and acc = sum_phi_of
        and ws = "grid3 N N (N div 2 + 1)" and s = s,
        OF step_loop_frame step_loop_local acc distinct_mode_idx]
    by (simp add: step_loop_grid3)
  also have "(\<Sum>w\<leftarrow>grid3 N N (N div 2 + 1).
        (case w of (x, y, z) \<Rightarrow> \<lambda>new. mode_mom2 P N x y z * parity_weight N z * norm2 (fst new))
          ((case w of (x, y, z) \<Rightarrow> loop_cell h pd pdd cd cdd (mode_idx N x y z))
             (cell6 s (case w of (x, y, z) \<Rightarrow> mode_idx N x y z)))) =
     (\<Sum>x<N. \<Sum>y<N. \<Sum>z<N div 2 + 1. mode_mom2 P N x y z * parity_weight N z *
        norm2 (fst (loop_cell h pd pdd cd cdd (mode_idx N x y z) (cell6 s (mode_idx N x y z)))))"
    by (simp add: sum_list_grid3)
  also have "\<dots> = (\<Sum>x<N. \<Sum>y<N. \<Sum>z\<le>N div 2. parity_weight N z * mode_mom2 P N x y z *
      norm2 (fst (cell6 (step_loop P N h pd pdd cd cdd s) (mode_idx N x y z))))"
    by (intro sum.cong refl) (simp_all add: step_loop_cell lessThan_Suc_atMost)
  finally show ?thesis .
qed

lemma step_loop_sum_chi:
  "sum_chi_of (step_loop P N h pd pdd cd cdd s) = sum_chi_of s +
   (\<Sum>x<N. \<Sum>y<N. \<Sum>z\<le>N div 2. parity_weight N z * mode_mom2 P N x y z *
      norm2 (fst (snd (cell6 (step_loop P N h pd pdd cd cdd s) (mode_idx N x y z)))))"
proof -
  have acc: "\<And>w s. sum_chi_of ((case w of (x, y, z) \<Rightarrow> step_loop_body P N h pd pdd cd cdd x y z) s) =
      sum_chi_of s + (case w of (x, y, z) \<Rightarrow> \<lambda>new. mode_mom2 P N x y z * parity_weight N z * norm2 (fst (snd new)))
        (cell6 ((case w of (x, y, z) \<Rightarrow> step_loop_body P N h pd pdd cd cdd x y z) s)
           (case w of (x, y, z) \<Rightarrow> mode_idx N x y z))"
    subgoal for w s
      by (cases s; cases w) (simp add: cell6_def sum_chi_of_def step_loop_body_explicit Let_def)
    done
  have "sum_chi_of (step_loop P N h pd pdd cd cdd s) = sum_chi_of s +
     (\<Sum>w\<leftarrow>grid3 N N (N div 2 + 1).
        (case w of (x, y, z) \<Rightarrow> \<lambda>new. mode_mom2 P N x y z * parity_weight N z * norm2 (fst (snd new)))
          ((case w of (x, y, z) \<Rightarrow> loop_cell h pd pdd cd cdd (mode_idx N x y z))
             (cell6 s (case w of (x, y, z) \<Rightarrow> mode_idx N x y z))))"
    using fold_point_sum[where key = "\<lambda>(x, y, z). mode_idx N x y z" and cell = cell6
        and B = "\<lambda>(x, y, z). step_loop_body P N h pd pdd cd cdd x y z"
        and F = "\<lambda>(x, y, z). loop_cell h pd pdd cd cdd (mode_idx N x y z)"
        and W = "\<lambda>(x, y, z) new. mode_mom2 P N x y z * parity_weight N z * norm2 (fst (snd new))"
        and acc = sum_chi_of
        and ws = "grid3 N N (N div 2 + 1)" and s = s,
        OF step_loop_frame step_loop_local acc distinct_mode_idx]
    by (simp add: step_loop_grid3)
  also have "(\<Sum>w\<leftarrow>grid3 N N (N div 2 + 1).
        (case w of (x, y, z) \<Rightarrow> \<lambda>new. mode_mom2 P N x y z * parity_weight N z * norm2 (fst (snd new)))
          ((case w of (x, y, z) \<Rightarrow> loop_cell h pd pdd cd cdd (mode_idx N x y z))
             (cell6 s (case w of (x, y, z) \<Rightarrow> mode_idx N x y z)))) =
     (\<Sum>x<N. \<Sum>y<N. \<Sum>z<N div 2 + 1. mode_mom2 P N x y z * parity_weight N z *
        norm2 (fst (snd (loop_cell h pd pdd cd cdd (mode_idx N x y z) (cell6 s (mode_idx N x y z))))))"
    by (simp add: sum_list_grid3)
  also have "\<dots> = (\<Sum>x<N. \<Sum>y<N. \<Sum>z\<le>N div 2. parity_weight N z * mode_mom2 P N x y z *
      norm2 (fst (snd (cell6 (step_loop P N h pd pdd cd cdd s) (mode_idx N x y z)))))"
    by (intro sum.cong refl) (simp_all add: step_loop_cell lessThan_Suc_atMost)
  finally show ?thesis .
qed

section \<open>The phases of a step\<close>

lemma step_phases:
  "step E v = velocity_kick (nonlinear_rebuild E (scale_factor_update E
                (kick_drift E (scale_factor_drift v))))"
  by (simp add: step_def velocity_kick_def nonlinear_rebuild_def scale_factor_update_def
      kick_drift_def scale_factor_drift_def Let_def split_def)

lemma state_switch_state [simp]: "state (switch_state E target f) = target"
  by (cases target) (auto simp: switch_state_def)

lemma velocity_kick_frame:
  "ts (velocity_kick v) = ts v" "phi (velocity_kick v) = phi v" "chi (velocity_kick v) = chi v"
  "nlt (velocity_kick v) = nlt v" "mp (velocity_kick v) = mp v" "fs (velocity_kick v) = fs v"
  "phidot_staggered (velocity_kick v) = phidot_staggered v"
  "chidot_staggered (velocity_kick v) = chidot_staggered v"
  "verlet.addot (velocity_kick v) = verlet.addot v"
  "adot_staggered (velocity_kick v) = adot_staggered v"
  "dptdt (velocity_kick v) = dptdt v" "ddptdt (velocity_kick v) = ddptdt v"
  "dptdt_staggered (velocity_kick v) = dptdt_staggered v"
  by (simp_all add: velocity_kick_def split_def Let_def)

lemma velocity_kick_cell:
  assumes "x < n (fs v)" "y < n (fs v)" "z \<le> n (fs v) div 2"
  shows "cell4 (mdata (phidot (velocity_kick v)), mdata (chidot (velocity_kick v)),
                mdata (phiddot (velocity_kick v)), mdata (chiddot (velocity_kick v)))
           (mode_idx (n (fs v)) x y z) =
         step_kernel_cell (mp v) (mdata (phi v)) (mdata (chi v))
           (mdata (chi2phi (nlt v))) (mdata (phi2chi (nlt v)))
           (mdata (phi3 (nlt v))) (mdata (chi3 (nlt v)))
           (mdata (phi5 (nlt v))) (mdata (chi5 (nlt v)))
           (mdata (phi_md (nlt v))) (mdata (chi_md (nlt v)))
           (mdata (phidot_staggered v)) (mdata (chidot_staggered v))
           (a (ts v)) (time_state.adot (ts v)) (verlet.addot v) (dt (ts v)) (n (fs v)) x y z"
proof -
  have "cell4 (launch (n (fs v)) (n (fs v)) (n (fs v) div 2 + 1)
          (verlet_step_kernel (mp v) (mdata (phi v)) (mdata (chi v))
             (mdata (chi2phi (nlt v))) (mdata (phi2chi (nlt v)))
             (mdata (phi3 (nlt v))) (mdata (chi3 (nlt v)))
             (mdata (phi5 (nlt v))) (mdata (chi5 (nlt v)))
             (mdata (phi_md (nlt v))) (mdata (chi_md (nlt v)))
             (mdata (phidot_staggered v)) (mdata (chidot_staggered v))
             (a (ts v)) (time_state.adot (ts v)) (verlet.addot v) (dt (ts v)) (n (fs v)))
          (mdata (phidot v), mdata (chidot v), mdata (phiddot v), mdata (chiddot v)))
          (mode_idx (n (fs v)) x y z) =
        step_kernel_cell (mp v) (mdata (phi v)) (mdata (chi v))
           (mdata (chi2phi (nlt v))) (mdata (phi2chi (nlt v)))
           (mdata (phi3 (nlt v))) (mdata (chi3 (nlt v)))
           (mdata (phi5 (nlt v))) (mdata (chi5 (nlt v)))
           (mdata (phi_md (nlt v))) (mdata (chi_md (nlt v)))
           (mdata (phidot_staggered v)) (mdata (chidot_staggered v))
           (a (ts v)) (time_state.adot (ts v)) (verlet.addot v) (dt (ts v)) (n (fs v)) x y z"
    using assms by (rule verlet_step_kernel_launch)
  then show ?thesis
    by (simp add: velocity_kick_def split_def cell4_def Let_def)
qed

lemma nonlinear_rebuild_frame:
  "ts (nonlinear_rebuild E v) = ts v"
  "mp (nonlinear_rebuild E v) = mp v" "fs (nonlinear_rebuild E v) = fs v"
  "phidot_staggered (nonlinear_rebuild E v) = phidot_staggered v"
  "chidot_staggered (nonlinear_rebuild E v) = chidot_staggered v"
  "verlet.addot (nonlinear_rebuild E v) = verlet.addot v"
  "adot_staggered (nonlinear_rebuild E v) = adot_staggered v"
  "dptdt (nonlinear_rebuild E v) = dptdt v" "ddptdt (nonlinear_rebuild E v) = ddptdt v"
  "dptdt_staggered (nonlinear_rebuild E v) = dptdt_staggered v"
  by (simp_all add: nonlinear_rebuild_def split_def Let_def)

lemma scale_factor_update_frame:
  "mp (scale_factor_update E w) = mp (fst w)" "fs (scale_factor_update E w) = fs (fst w)"
  "phidot_staggered (scale_factor_update E w) = phidot_staggered (fst w)"
  "chidot_staggered (scale_factor_update E w) = chidot_staggered (fst w)"
  "adot_staggered (scale_factor_update E w) = adot_staggered (fst w)"
  "dptdt_staggered (scale_factor_update E w) = dptdt_staggered (fst w)"
  "t (ts (scale_factor_update E w)) = t (ts (fst w))"
  "a (ts (scale_factor_update E w)) = a (ts (fst w))"
  "dt (ts (scale_factor_update E w)) = dt (ts (fst w))"
  "physical_time (ts (scale_factor_update E w)) = physical_time (ts (fst w))"
  by (simp_all add: scale_factor_update_def split_def Let_def)

lemma scale_factor_update_values:
  "time_state.addot (ts (scale_factor_update E w)) =
     adoubledot_staggered E (mp (fst w)) (t (ts (fst w))) (dt (ts (fst w))) (a (ts (fst w))) (adot_staggered (fst w))
       (fst (snd w) / pow_2 (real (total_gridpoints (fs (fst w))))) (snd (snd w) / pow_2 (real (total_gridpoints (fs (fst w)))))
       (fst (integrate E (phi (fst w)) (chi (fst w)) (a (ts (fst w)))))"
  "verlet.addot (scale_factor_update E w) =
     time_state.addot (ts (scale_factor_update E w))"
  "time_state.adot (ts (scale_factor_update E w)) =
     adot_staggered (fst w) + 0.5 * time_state.addot (ts (scale_factor_update E w)) * dt (ts (fst w))"
  "ddptdt (scale_factor_update E w) =
     - rescale_s (mp (fst w)) / rescale_B (mp (fst w)) * pow (a (ts (fst w))) (- rescale_s (mp (fst w)) - 1) *
       time_state.adot (ts (scale_factor_update E w))"
  "dptdt (scale_factor_update E w) =
     dptdt_staggered (fst w) + 0.5 * ddptdt (scale_factor_update E w) * dt (ts (fst w))"
  by (simp_all add: scale_factor_update_def split_def Let_def)

lemma kick_drift_frame:
  "ts (fst (kick_drift E v)) = ts v"
  "mp (fst (kick_drift E v)) = mp v" "fs (fst (kick_drift E v)) = fs v"
  "verlet.addot (fst (kick_drift E v)) = verlet.addot v"
  "adot_staggered (fst (kick_drift E v)) = adot_staggered v"
  "dptdt (fst (kick_drift E v)) = dptdt v" "ddptdt (fst (kick_drift E v)) = ddptdt v"
  "dptdt_staggered (fst (kick_drift E v)) = dptdt_staggered v"
  "state (phi (fst (kick_drift E v))) = momentum"
  "state (chi (fst (kick_drift E v))) = momentum"
  by (simp_all add: kick_drift_def split_def Let_def)


lemma scale_factor_drift_values:
  "adot_staggered (scale_factor_drift v) =
     time_state.adot (ts v) + 0.5 * verlet.addot v * dt (ts v)"
  "dptdt_staggered (scale_factor_drift v) = dptdt v + 0.5 * ddptdt v * dt (ts v)"
  "a (ts (scale_factor_drift v)) =
     a (ts v) + (time_state.adot (ts v) * dt (ts v) + 0.5 * verlet.addot v * pow2 (dt (ts v)))"
  "physical_time (ts (scale_factor_drift v)) =
     physical_time (ts v) + (dptdt v * dt (ts v) + 0.5 * ddptdt v * pow2 (dt (ts v)))"
  "t (ts (scale_factor_drift v)) = t (ts v)" "dt (ts (scale_factor_drift v)) = dt (ts v)"
  "time_state.adot (ts (scale_factor_drift v)) = time_state.adot (ts v)"
  "time_state.addot (ts (scale_factor_drift v)) = time_state.addot (ts v)"
  "mp (scale_factor_drift v) = mp v" "fs (scale_factor_drift v) = fs v"
  "phi (scale_factor_drift v) = phi v" "chi (scale_factor_drift v) = chi v"
  "phidot (scale_factor_drift v) = phidot v" "chidot (scale_factor_drift v) = chidot v"
  "phiddot (scale_factor_drift v) = phiddot v" "chiddot (scale_factor_drift v) = chiddot v"
  "phidot_staggered (scale_factor_drift v) = phidot_staggered v"
  "chidot_staggered (scale_factor_drift v) = chidot_staggered v"
  "nlt (scale_factor_drift v) = nlt v"
  "verlet.addot (scale_factor_drift v) = verlet.addot v"
  "dptdt (scale_factor_drift v) = dptdt v" "ddptdt (scale_factor_drift v) = ddptdt v"
  by (simp_all add: scale_factor_drift_def Let_def)

lemma kick_drift_cell:
  assumes "x < n (fs v)" "y < n (fs v)" "z \<le> n (fs v) div 2"
  shows "(mdata (phi (fst (kick_drift E v))) (mode_idx (n (fs v)) x y z),
          mdata (chi (fst (kick_drift E v))) (mode_idx (n (fs v)) x y z),
          mdata (phidot_staggered (fst (kick_drift E v))) (mode_idx (n (fs v)) x y z),
          mdata (chidot_staggered (fst (kick_drift E v))) (mode_idx (n (fs v)) x y z)) =
         loop_cell (dt (ts v))
           (mdata (switch_state E momentum (phidot v))) (mdata (switch_state E momentum (phiddot v)))
           (mdata (switch_state E momentum (chidot v))) (mdata (switch_state E momentum (chiddot v)))
           (mode_idx (n (fs v)) x y z)
           (mdata (switch_state E momentum (phi v)) (mode_idx (n (fs v)) x y z),
            mdata (switch_state E momentum (chi v)) (mode_idx (n (fs v)) x y z),
            mdata (switch_state E momentum (phidot_staggered v)) (mode_idx (n (fs v)) x y z),
            mdata (switch_state E momentum (chidot_staggered v)) (mode_idx (n (fs v)) x y z))"
  using step_loop_cell[OF assms, where P = "mp v" and h = "dt (ts v)"
      and pd = "mdata (switch_state E momentum (phidot v))"
      and pdd = "mdata (switch_state E momentum (phiddot v))"
      and cd = "mdata (switch_state E momentum (chidot v))"
      and cdd = "mdata (switch_state E momentum (chiddot v))"
      and s = "(mdata (switch_state E momentum (phi v)), mdata (switch_state E momentum (chi v)),
               mdata (switch_state E momentum (phidot_staggered v)),
               mdata (switch_state E momentum (chidot_staggered v)), 0, 0)"]
  by (simp add: kick_drift_def split_def Let_def cell6_def)

lemma kick_drift_sums:
  "fst (snd (kick_drift E v)) =
     (\<Sum>x<n (fs v). \<Sum>y<n (fs v). \<Sum>z\<le>n (fs v) div 2.
        parity_weight (n (fs v)) z * mode_mom2 (mp v) (n (fs v)) x y z *
        norm2 (mdata (phi (fst (kick_drift E v))) (mode_idx (n (fs v)) x y z)))"
  using step_loop_sum_phi[where P = "mp v" and N = "n (fs v)" and h = "dt (ts v)"
      and pd = "mdata (switch_state E momentum (phidot v))"
      and pdd = "mdata (switch_state E momentum (phiddot v))"
      and cd = "mdata (switch_state E momentum (chidot v))"
      and cdd = "mdata (switch_state E momentum (chiddot v))"
      and s = "(mdata (switch_state E momentum (phi v)), mdata (switch_state E momentum (chi v)),
               mdata (switch_state E momentum (phidot_staggered v)),
               mdata (switch_state E momentum (chidot_staggered v)), 0, 0)"]
  by (simp add: kick_drift_def split_def Let_def cell6_def sum_phi_of_def)

lemma kick_drift_sums_chi:
  "snd (snd (kick_drift E v)) =
     (\<Sum>x<n (fs v). \<Sum>y<n (fs v). \<Sum>z\<le>n (fs v) div 2.
        parity_weight (n (fs v)) z * mode_mom2 (mp v) (n (fs v)) x y z *
        norm2 (mdata (chi (fst (kick_drift E v))) (mode_idx (n (fs v)) x y z)))"
  using step_loop_sum_chi[where P = "mp v" and N = "n (fs v)" and h = "dt (ts v)"
      and pd = "mdata (switch_state E momentum (phidot v))"
      and pdd = "mdata (switch_state E momentum (phiddot v))"
      and cd = "mdata (switch_state E momentum (chidot v))"
      and cdd = "mdata (switch_state E momentum (chiddot v))"
      and s = "(mdata (switch_state E momentum (phi v)), mdata (switch_state E momentum (chi v)),
               mdata (switch_state E momentum (phidot_staggered v)),
               mdata (switch_state E momentum (chidot_staggered v)), 0, 0)"]
  by (simp add: kick_drift_def split_def Let_def cell6_def sum_chi_of_def)

lemmas phase_frames =
  velocity_kick_frame nonlinear_rebuild_frame scale_factor_update_frame kick_drift_frame
  scale_factor_drift_values

lemma velocity_kick_final:
  assumes "x < n (fs v)" "y < n (fs v)" "z \<le> n (fs v) div 2" "c < 2"
  shows "rd (mdata (phiddot (velocity_kick v))) (mode_idx (n (fs v)) x y z) c =
           klein_gordon (mp v) (md_e_phi (mp v)) (m_phi (mp v)) (lambda_phi (mp v))
             (gamma_phi (mp v)) (a (ts v)) (time_state.adot (ts v)) (verlet.addot v)
             (mode_mom2 (mp v) (n (fs v)) x y z)
             (rd (mdata (phi v)) (mode_idx (n (fs v)) x y z) c)
             (rd (mdata (phi_md (nlt v))) (mode_idx (n (fs v)) x y z) c)
             (rd (mdata (phi3 (nlt v))) (mode_idx (n (fs v)) x y z) c)
             (rd (mdata (chi2phi (nlt v))) (mode_idx (n (fs v)) x y z) c)
             (rd (mdata (phi5 (nlt v))) (mode_idx (n (fs v)) x y z) c)"
    and "rd (mdata (chiddot (velocity_kick v))) (mode_idx (n (fs v)) x y z) c =
           klein_gordon (mp v) (md_e_chi (mp v)) (m_chi (mp v)) (lambda_chi (mp v))
             (gamma_chi (mp v)) (a (ts v)) (time_state.adot (ts v)) (verlet.addot v)
             (mode_mom2 (mp v) (n (fs v)) x y z)
             (rd (mdata (chi v)) (mode_idx (n (fs v)) x y z) c)
             (rd (mdata (chi_md (nlt v))) (mode_idx (n (fs v)) x y z) c)
             (rd (mdata (chi3 (nlt v))) (mode_idx (n (fs v)) x y z) c)
             (rd (mdata (phi2chi (nlt v))) (mode_idx (n (fs v)) x y z) c)
             (rd (mdata (chi5 (nlt v))) (mode_idx (n (fs v)) x y z) c)"
    and "rd (mdata (phidot (velocity_kick v))) (mode_idx (n (fs v)) x y z) c =
           rd (mdata (phidot_staggered v)) (mode_idx (n (fs v)) x y z) c +
           0.5 * rd (mdata (phiddot (velocity_kick v))) (mode_idx (n (fs v)) x y z) c * dt (ts v)"
    and "rd (mdata (chidot (velocity_kick v))) (mode_idx (n (fs v)) x y z) c =
           rd (mdata (chidot_staggered v)) (mode_idx (n (fs v)) x y z) c +
           0.5 * rd (mdata (chiddot (velocity_kick v))) (mode_idx (n (fs v)) x y z) c * dt (ts v)"
proof -
  have c: "c = 0 \<or> c = Suc 0" using assms(4) by auto
  note k = velocity_kick_cell[OF assms(1-3)]
  show "rd (mdata (phiddot (velocity_kick v))) (mode_idx (n (fs v)) x y z) c =
           klein_gordon (mp v) (md_e_phi (mp v)) (m_phi (mp v)) (lambda_phi (mp v))
             (gamma_phi (mp v)) (a (ts v)) (time_state.adot (ts v)) (verlet.addot v)
             (mode_mom2 (mp v) (n (fs v)) x y z)
             (rd (mdata (phi v)) (mode_idx (n (fs v)) x y z) c)
             (rd (mdata (phi_md (nlt v))) (mode_idx (n (fs v)) x y z) c)
             (rd (mdata (phi3 (nlt v))) (mode_idx (n (fs v)) x y z) c)
             (rd (mdata (chi2phi (nlt v))) (mode_idx (n (fs v)) x y z) c)
             (rd (mdata (phi5 (nlt v))) (mode_idx (n (fs v)) x y z) c)"
    using k c by (auto simp: cell4_def step_kernel_cell_def Let_def rd_def)
  show "rd (mdata (chiddot (velocity_kick v))) (mode_idx (n (fs v)) x y z) c =
           klein_gordon (mp v) (md_e_chi (mp v)) (m_chi (mp v)) (lambda_chi (mp v))
             (gamma_chi (mp v)) (a (ts v)) (time_state.adot (ts v)) (verlet.addot v)
             (mode_mom2 (mp v) (n (fs v)) x y z)
             (rd (mdata (chi v)) (mode_idx (n (fs v)) x y z) c)
             (rd (mdata (chi_md (nlt v))) (mode_idx (n (fs v)) x y z) c)
             (rd (mdata (chi3 (nlt v))) (mode_idx (n (fs v)) x y z) c)
             (rd (mdata (phi2chi (nlt v))) (mode_idx (n (fs v)) x y z) c)
             (rd (mdata (chi5 (nlt v))) (mode_idx (n (fs v)) x y z) c)"
    using k c by (auto simp: cell4_def step_kernel_cell_def Let_def rd_def)
  show "rd (mdata (phidot (velocity_kick v))) (mode_idx (n (fs v)) x y z) c =
           rd (mdata (phidot_staggered v)) (mode_idx (n (fs v)) x y z) c +
           0.5 * rd (mdata (phiddot (velocity_kick v))) (mode_idx (n (fs v)) x y z) c * dt (ts v)"
    using k c by (auto simp: cell4_def step_kernel_cell_def Let_def rd_def)
  show "rd (mdata (chidot (velocity_kick v))) (mode_idx (n (fs v)) x y z) c =
           rd (mdata (chidot_staggered v)) (mode_idx (n (fs v)) x y z) c +
           0.5 * rd (mdata (chiddot (velocity_kick v))) (mode_idx (n (fs v)) x y z) c * dt (ts v)"
    using k c by (auto simp: cell4_def step_kernel_cell_def Let_def rd_def)
qed

lemma kick_drift_final:
  assumes "x < n (fs v)" "y < n (fs v)" "z \<le> n (fs v) div 2" "c < 2"
  shows "rd (mdata (phidot_staggered (fst (kick_drift E v)))) (mode_idx (n (fs v)) x y z) c =
           rd (mdata (switch_state E momentum (phidot v))) (mode_idx (n (fs v)) x y z) c +
           0.5 * rd (mdata (switch_state E momentum (phiddot v))) (mode_idx (n (fs v)) x y z) c *
             dt (ts v)"
    and "rd (mdata (chidot_staggered (fst (kick_drift E v)))) (mode_idx (n (fs v)) x y z) c =
           rd (mdata (switch_state E momentum (chidot v))) (mode_idx (n (fs v)) x y z) c +
           0.5 * rd (mdata (switch_state E momentum (chiddot v))) (mode_idx (n (fs v)) x y z) c *
             dt (ts v)"
    and "rd (mdata (phi (fst (kick_drift E v)))) (mode_idx (n (fs v)) x y z) c =
           rd (mdata (switch_state E momentum (phi v))) (mode_idx (n (fs v)) x y z) c +
           rd (mdata (phidot_staggered (fst (kick_drift E v)))) (mode_idx (n (fs v)) x y z) c *
             dt (ts v)"
    and "rd (mdata (chi (fst (kick_drift E v)))) (mode_idx (n (fs v)) x y z) c =
           rd (mdata (switch_state E momentum (chi v))) (mode_idx (n (fs v)) x y z) c +
           rd (mdata (chidot_staggered (fst (kick_drift E v)))) (mode_idx (n (fs v)) x y z) c *
             dt (ts v)"
proof -
  have c: "c = 0 \<or> c = Suc 0" using assms(4) by auto
  note k = kick_drift_cell[OF assms(1-3), of E]
  show "rd (mdata (phidot_staggered (fst (kick_drift E v)))) (mode_idx (n (fs v)) x y z) c =
           rd (mdata (switch_state E momentum (phidot v))) (mode_idx (n (fs v)) x y z) c +
           0.5 * rd (mdata (switch_state E momentum (phiddot v))) (mode_idx (n (fs v)) x y z) c *
             dt (ts v)"
    using k c by (auto simp: loop_cell_def Let_def rd_def)
  show "rd (mdata (chidot_staggered (fst (kick_drift E v)))) (mode_idx (n (fs v)) x y z) c =
           rd (mdata (switch_state E momentum (chidot v))) (mode_idx (n (fs v)) x y z) c +
           0.5 * rd (mdata (switch_state E momentum (chiddot v))) (mode_idx (n (fs v)) x y z) c *
             dt (ts v)"
    using k c by (auto simp: loop_cell_def Let_def rd_def)
  show "rd (mdata (phi (fst (kick_drift E v)))) (mode_idx (n (fs v)) x y z) c =
           rd (mdata (switch_state E momentum (phi v))) (mode_idx (n (fs v)) x y z) c +
           rd (mdata (phidot_staggered (fst (kick_drift E v)))) (mode_idx (n (fs v)) x y z) c *
             dt (ts v)"
    using k c by (auto simp: loop_cell_def Let_def rd_def)
  show "rd (mdata (chi (fst (kick_drift E v)))) (mode_idx (n (fs v)) x y z) c =
           rd (mdata (switch_state E momentum (chi v))) (mode_idx (n (fs v)) x y z) c +
           rd (mdata (chidot_staggered (fst (kick_drift E v)))) (mode_idx (n (fs v)) x y z) c *
             dt (ts v)"
    using k c by (auto simp: loop_cell_def Let_def rd_def)
qed

section \<open>One step of the integrator\<close>

text \<open>
  C2. In every call of \<^verbatim>\<open>step()\<close>, for every stored mode and both components: the host
  loop sets \<^verbatim>\<open>phidot_staggered\<close> to \<^verbatim>\<open>phidot + 0.5*phiddot*dt\<close> and \<^verbatim>\<open>chidot_staggered\<close> to
  \<^verbatim>\<open>chidot + 0.5*chiddot*dt\<close>, then adds \<^verbatim>\<open>phidot_staggered*dt\<close> to \<^verbatim>\<open>phi\<close> and
  \<^verbatim>\<open>chidot_staggered*dt\<close> to \<^verbatim>\<open>chi\<close>; the rest of the step leaves the staggered velocities
  alone, and in the state the step returns \<^verbatim>\<open>phiddot\<close> and \<^verbatim>\<open>chiddot\<close> are the Klein-Gordon
  accelerations at the returned scale factor, its two derivatives, and the returned fields
  and products, while \<^verbatim>\<open>phidot\<close> is \<^verbatim>\<open>phidot_staggered + 0.5*phiddot*dt\<close> and \<^verbatim>\<open>chidot\<close> is
  \<^verbatim>\<open>chidot_staggered + 0.5*chiddot*dt\<close>. The fields on entry are read in momentum
  representation, whatever representation the caller left them in.
\<close>

theorem step_kick_drift_kick:
  assumes "x < n (fs v)" "y < n (fs v)" "z \<le> n (fs v) div 2" "c < 2"
  shows "(let i = mode_idx (n (fs v)) x y z; h = dt (ts v);
              (v2, sum_phi, sum_chi) = kick_drift E (scale_factor_drift v);
              v' = step E v
          in rd (mdata (phidot_staggered v2)) i c =
               rd (mdata (switch_state E momentum (phidot v))) i c +
               0.5 * rd (mdata (switch_state E momentum (phiddot v))) i c * h \<and>
             rd (mdata (chidot_staggered v2)) i c =
               rd (mdata (switch_state E momentum (chidot v))) i c +
               0.5 * rd (mdata (switch_state E momentum (chiddot v))) i c * h \<and>
             rd (mdata (phi v2)) i c =
               rd (mdata (switch_state E momentum (phi v))) i c +
               rd (mdata (phidot_staggered v2)) i c * h \<and>
             rd (mdata (chi v2)) i c =
               rd (mdata (switch_state E momentum (chi v))) i c +
               rd (mdata (chidot_staggered v2)) i c * h \<and>
             v' = velocity_kick (nonlinear_rebuild E
                    (scale_factor_update E (v2, sum_phi, sum_chi))) \<and>
             phidot_staggered v' = phidot_staggered v2 \<and>
             chidot_staggered v' = chidot_staggered v2 \<and>
             rd (mdata (phiddot v')) i c =
               klein_gordon (mp v) (md_e_phi (mp v)) (m_phi (mp v)) (lambda_phi (mp v))
                 (gamma_phi (mp v)) (a (ts v')) (time_state.adot (ts v'))
                 (time_state.addot (ts v')) (mode_mom2 (mp v) (n (fs v)) x y z)
                 (rd (mdata (phi v')) i c) (rd (mdata (phi_md (nlt v'))) i c)
                 (rd (mdata (phi3 (nlt v'))) i c) (rd (mdata (chi2phi (nlt v'))) i c)
                 (rd (mdata (phi5 (nlt v'))) i c) \<and>
             rd (mdata (chiddot v')) i c =
               klein_gordon (mp v) (md_e_chi (mp v)) (m_chi (mp v)) (lambda_chi (mp v))
                 (gamma_chi (mp v)) (a (ts v')) (time_state.adot (ts v'))
                 (time_state.addot (ts v')) (mode_mom2 (mp v) (n (fs v)) x y z)
                 (rd (mdata (chi v')) i c) (rd (mdata (chi_md (nlt v'))) i c)
                 (rd (mdata (chi3 (nlt v'))) i c) (rd (mdata (phi2chi (nlt v'))) i c)
                 (rd (mdata (chi5 (nlt v'))) i c) \<and>
             rd (mdata (phidot v')) i c =
               rd (mdata (phidot_staggered v')) i c + 0.5 * rd (mdata (phiddot v')) i c * h \<and>
             rd (mdata (chidot v')) i c =
               rd (mdata (chidot_staggered v')) i c + 0.5 * rd (mdata (chiddot v')) i c * h)"
proof -
  define v1 where "v1 = scale_factor_drift v"
  define v4 where "v4 = nonlinear_rebuild E (scale_factor_update E (kick_drift E v1))"
  have v1: "n (fs v1) = n (fs v)" "dt (ts v1) = dt (ts v)" "phi v1 = phi v" "chi v1 = chi v"
    "phidot v1 = phidot v" "chidot v1 = chidot v" "phiddot v1 = phiddot v"
    "chiddot v1 = chiddot v"
    by (simp_all add: v1_def scale_factor_drift_values)
  have v4: "n (fs v4) = n (fs v)" "mp v4 = mp v" "dt (ts v4) = dt (ts v)"
    "verlet.addot v4 = time_state.addot (ts v4)"
    "phidot_staggered v4 = phidot_staggered (fst (kick_drift E v1))"
    "chidot_staggered v4 = chidot_staggered (fst (kick_drift E v1))"
    by (simp_all add: v4_def v1_def phase_frames scale_factor_update_values)
  have st: "step E v = velocity_kick v4"
    by (simp add: step_phases v4_def v1_def)
  have m1: "x < n (fs v1)" "y < n (fs v1)" "z \<le> n (fs v1) div 2"
    using assms by (simp_all add: v1)
  have m4: "x < n (fs v4)" "y < n (fs v4)" "z \<le> n (fs v4) div 2"
    using assms by (simp_all add: v4)
  note kd = kick_drift_final[OF m1 assms(4), of E, unfolded v1]
  note vk = velocity_kick_final[OF m4 assms(4), unfolded v4(1,2,3)]
  let ?i = "mode_idx (n (fs v)) x y z"
  let ?v2 = "fst (kick_drift E v1)"
  have c5: "step E v = velocity_kick (nonlinear_rebuild E (scale_factor_update E
              (?v2, fst (snd (kick_drift E v1)), snd (snd (kick_drift E v1)))))"
    by (simp add: st v4_def)
  have c6: "phidot_staggered (step E v) = phidot_staggered ?v2"
    and c7: "chidot_staggered (step E v) = chidot_staggered ?v2"
    by (simp_all add: st velocity_kick_frame v4)
  have c8: "rd (mdata (phiddot (step E v))) ?i c =
      klein_gordon (mp v) (md_e_phi (mp v)) (m_phi (mp v)) (lambda_phi (mp v))
        (gamma_phi (mp v)) (a (ts (step E v))) (time_state.adot (ts (step E v)))
        (time_state.addot (ts (step E v))) (mode_mom2 (mp v) (n (fs v)) x y z)
        (rd (mdata (phi (step E v))) ?i c) (rd (mdata (phi_md (nlt (step E v)))) ?i c)
        (rd (mdata (phi3 (nlt (step E v)))) ?i c) (rd (mdata (chi2phi (nlt (step E v)))) ?i c)
        (rd (mdata (phi5 (nlt (step E v)))) ?i c)"
    using vk(1) by (simp add: st velocity_kick_frame v4(4))
  have c9: "rd (mdata (chiddot (step E v))) ?i c =
      klein_gordon (mp v) (md_e_chi (mp v)) (m_chi (mp v)) (lambda_chi (mp v))
        (gamma_chi (mp v)) (a (ts (step E v))) (time_state.adot (ts (step E v)))
        (time_state.addot (ts (step E v))) (mode_mom2 (mp v) (n (fs v)) x y z)
        (rd (mdata (chi (step E v))) ?i c) (rd (mdata (chi_md (nlt (step E v)))) ?i c)
        (rd (mdata (chi3 (nlt (step E v)))) ?i c) (rd (mdata (phi2chi (nlt (step E v)))) ?i c)
        (rd (mdata (chi5 (nlt (step E v)))) ?i c)"
    using vk(2) by (simp add: st velocity_kick_frame v4(4))
  have c10: "rd (mdata (phidot (step E v))) ?i c =
      rd (mdata (phidot_staggered (step E v))) ?i c +
      0.5 * rd (mdata (phiddot (step E v))) ?i c * dt (ts v)"
    using vk(3) by (simp add: st velocity_kick_frame)
  have c11: "rd (mdata (chidot (step E v))) ?i c =
      rd (mdata (chidot_staggered (step E v))) ?i c +
      0.5 * rd (mdata (chiddot (step E v))) ?i c * dt (ts v)"
    using vk(4) by (simp add: st velocity_kick_frame)
  show ?thesis
    unfolding Let_def split_def v1_def[symmetric]
    by (intro conjI kd c5 c6 c7 c8 c9 c10 c11)
qed

theorem step_kick_drift_kick_witness:
  "3 < n (fs demo_verlet) \<and> 1 < n (fs demo_verlet) \<and> 2 \<le> n (fs demo_verlet) div 2 \<and>
   (1::nat) < 2 \<and>
   rd (mdata (phidot_staggered (fst (kick_drift demo_env (scale_factor_drift demo_verlet)))))
     41 1 = 4 \<and>
   rd (mdata (chidot_staggered (fst (kick_drift demo_env (scale_factor_drift demo_verlet)))))
     41 1 = 4 \<and>
   rd (mdata (phi (fst (kick_drift demo_env (scale_factor_drift demo_verlet))))) 41 1 = 5 \<and>
   rd (mdata (chi (fst (kick_drift demo_env (scale_factor_drift demo_verlet))))) 41 1 = 6 \<and>
   rd (mdata (phidot (step demo_env demo_verlet))) 41 1 =
     4 + 0.5 * rd (mdata (phiddot (step demo_env demo_verlet))) 41 1 * 1"
proof -
  have h: "3 < n (fs demo_verlet)" "1 < n (fs demo_verlet)" "2 \<le> n (fs demo_verlet) div 2"
    "(1::nat) < 2"
    by (simp_all add: demo_verlet_def)
  have d: "n (fs demo_verlet) = 4" "dt (ts demo_verlet) = 1"
    "mdata (switch_state demo_env momentum (phi demo_verlet)) = demo_array 1 1"
    "mdata (switch_state demo_env momentum (chi demo_verlet)) = demo_array 2 2"
    "mdata (switch_state demo_env momentum (phidot demo_verlet)) = demo_array 1 2"
    "mdata (switch_state demo_env momentum (chidot demo_verlet)) = demo_array 3 1"
    "mdata (switch_state demo_env momentum (phiddot demo_verlet)) = demo_array 3 4"
    "mdata (switch_state demo_env momentum (chiddot demo_verlet)) = demo_array 2 6"
    by (simp_all add: demo_verlet_def demo_field_def switch_state_def)
  note T = step_kick_drift_kick[OF h, of demo_env, unfolded Let_def split_def]
  have c1: "rd (mdata (phidot_staggered (fst (kick_drift demo_env
              (scale_factor_drift demo_verlet))))) 41 1 = 4"
    using T[THEN conjunct1] by (simp add: d mode_idx_def demo_array_def rd_def)
  have c2: "rd (mdata (chidot_staggered (fst (kick_drift demo_env
              (scale_factor_drift demo_verlet))))) 41 1 = 4"
    using T[THEN conjunct2, THEN conjunct1] by (simp add: d mode_idx_def demo_array_def rd_def)
  have c3: "rd (mdata (phi (fst (kick_drift demo_env (scale_factor_drift demo_verlet))))) 41 1 = 5"
    using T[THEN conjunct2, THEN conjunct2, THEN conjunct1] c1
    by (simp add: d mode_idx_def demo_array_def rd_def)
  have c4: "rd (mdata (chi (fst (kick_drift demo_env (scale_factor_drift demo_verlet))))) 41 1 = 6"
    using T[THEN conjunct2, THEN conjunct2, THEN conjunct2, THEN conjunct1] c2
    by (simp add: d mode_idx_def demo_array_def rd_def)
  have c6: "phidot_staggered (step demo_env demo_verlet) =
      phidot_staggered (fst (kick_drift demo_env (scale_factor_drift demo_verlet)))"
    using T[THEN conjunct2, THEN conjunct2, THEN conjunct2, THEN conjunct2, THEN conjunct2,
        THEN conjunct1] .
  have c10: "rd (mdata (phidot (step demo_env demo_verlet))) 41 1 =
      rd (mdata (phidot_staggered (step demo_env demo_verlet))) 41 1 +
      0.5 * rd (mdata (phiddot (step demo_env demo_verlet))) 41 1 * 1"
    using T[THEN conjunct2, THEN conjunct2, THEN conjunct2, THEN conjunct2, THEN conjunct2,
        THEN conjunct2, THEN conjunct2, THEN conjunct2, THEN conjunct2, THEN conjunct1]
    by (simp add: d mode_idx_def)
  show ?thesis
    using h c1 c2 c3 c4 c10 by (simp add: c6)
qed

text \<open>
  C3. In every call of \<^verbatim>\<open>step()\<close> the scale-factor subsystem advances as follows:
  \<^verbatim>\<open>adot_staggered\<close> is \<^verbatim>\<open>ts.adot + 0.5*addot*dt\<close> and \<^verbatim>\<open>dptdt_staggered\<close> is
  \<^verbatim>\<open>dptdt + 0.5*ddptdt*dt\<close>, both of the values on entry; \<^verbatim>\<open>ts.a\<close> grows by
  \<^verbatim>\<open>ts.adot*dt + 0.5*addot*dt^2\<close> and \<^verbatim>\<open>ts.physical_time\<close> by \<^verbatim>\<open>dptdt*dt + 0.5*ddptdt*dt^2\<close>;
  \<^verbatim>\<open>ts.addot\<close> is \<^verbatim>\<open>adoubledot_staggered\<close> of the time, the timestep, the drifted scale factor,
  the half-step velocity, the two gradient sums of the host loop divided by the square of
  the number of grid points and the average potential of the drifted fields; \<^verbatim>\<open>ts.adot\<close> is
  \<^verbatim>\<open>adot_staggered + 0.5*ts.addot*dt\<close> and \<^verbatim>\<open>dptdt\<close> is \<^verbatim>\<open>dptdt_staggered + 0.5*ddptdt*dt\<close> with the
  new \<^verbatim>\<open>ddptdt\<close>.
\<close>

theorem step_scale_factor:
  "(let h = dt (ts v);
        (v2, sum_phi, sum_chi) = kick_drift E (scale_factor_drift v);
        v' = step E v
    in adot_staggered v' = time_state.adot (ts v) + 0.5 * verlet.addot v * h \<and>
       dptdt_staggered v' = dptdt v + 0.5 * ddptdt v * h \<and>
       a (ts v') = a (ts v) + (time_state.adot (ts v) * h + 0.5 * verlet.addot v * h\<^sup>2) \<and>
       physical_time (ts v') =
         physical_time (ts v) + (dptdt v * h + 0.5 * ddptdt v * h\<^sup>2) \<and>
       time_state.addot (ts v') =
         adoubledot_staggered E (mp v) (t (ts v)) h (a (ts v')) (adot_staggered v')
           (sum_phi / (real (total_gridpoints (fs v)))\<^sup>2)
           (sum_chi / (real (total_gridpoints (fs v)))\<^sup>2)
           (fst (integrate E (phi v2) (chi v2) (a (ts v')))) \<and>
       verlet.addot v' = time_state.addot (ts v') \<and>
       time_state.adot (ts v') = adot_staggered v' + 0.5 * time_state.addot (ts v') * h \<and>
       dptdt v' = dptdt_staggered v' + 0.5 * ddptdt v' * h \<and>
       t (ts v') = t (ts v) \<and> dt (ts v') = h)"
  by (simp add: step_phases phase_frames scale_factor_update_values Let_def split_def
      pow_2_def pow2_def power2_eq_square)

text \<open>
  C4. The gradient sum that \<^verbatim>\<open>step()\<close> accumulates for a field is the sum, over all stored
  modes \<open>(x, y, z)\<close> with \<open>z\<close> from \<open>0\<close> to \<open>N/2\<close>, of the parity weight (\<open>1\<close> for \<open>z = 0\<close> and
  \<open>z = N/2\<close>, \<open>2\<close> otherwise) times the squared momentum of the centred indices times
  \<open>Re\<^sup>2 + Im\<^sup>2\<close> of the field the loop has advanced, which is in momentum state; the
  average handed to \<^verbatim>\<open>adoubledot_staggered\<close> is that sum divided by the square of
  \<^verbatim>\<open>total_gridpoints\<close>.
\<close>

theorem step_gradient_sums:
  "(let N = n (fs v);
        (v2, sum_phi, sum_chi) = kick_drift E (scale_factor_drift v);
        v' = step E v
    in sum_phi = (\<Sum>x<N. \<Sum>y<N. \<Sum>z\<le>N div 2.
           parity_weight N z * mode_mom2 (mp v) N x y z *
           ((rd (mdata (phi v2)) (mode_idx N x y z) 0)\<^sup>2 +
            (rd (mdata (phi v2)) (mode_idx N x y z) 1)\<^sup>2)) \<and>
       sum_chi = (\<Sum>x<N. \<Sum>y<N. \<Sum>z\<le>N div 2.
           parity_weight N z * mode_mom2 (mp v) N x y z *
           ((rd (mdata (chi v2)) (mode_idx N x y z) 0)\<^sup>2 +
            (rd (mdata (chi v2)) (mode_idx N x y z) 1)\<^sup>2)) \<and>
       state (phi v2) = momentum \<and> state (chi v2) = momentum \<and>
       time_state.addot (ts v') =
         adoubledot_staggered E (mp v) (t (ts v)) (dt (ts v)) (a (ts v')) (adot_staggered v')
           (sum_phi / (real (total_gridpoints (fs v)))\<^sup>2)
           (sum_chi / (real (total_gridpoints (fs v)))\<^sup>2)
           (fst (integrate E (phi v2) (chi v2) (a (ts v')))))"
proof -
  have "fst (snd (kick_drift E (scale_factor_drift v))) =
        (\<Sum>x<n (fs v). \<Sum>y<n (fs v). \<Sum>z\<le>n (fs v) div 2.
           parity_weight (n (fs v)) z * mode_mom2 (mp v) (n (fs v)) x y z *
           ((rd (mdata (phi (fst (kick_drift E (scale_factor_drift v)))))
               (mode_idx (n (fs v)) x y z) 0)\<^sup>2 +
            (rd (mdata (phi (fst (kick_drift E (scale_factor_drift v)))))
               (mode_idx (n (fs v)) x y z) 1)\<^sup>2))"
    using kick_drift_sums[of E "scale_factor_drift v"]
    by (simp add: scale_factor_drift_values norm2_def rd_def)
  moreover have "snd (snd (kick_drift E (scale_factor_drift v))) =
        (\<Sum>x<n (fs v). \<Sum>y<n (fs v). \<Sum>z\<le>n (fs v) div 2.
           parity_weight (n (fs v)) z * mode_mom2 (mp v) (n (fs v)) x y z *
           ((rd (mdata (chi (fst (kick_drift E (scale_factor_drift v)))))
               (mode_idx (n (fs v)) x y z) 0)\<^sup>2 +
            (rd (mdata (chi (fst (kick_drift E (scale_factor_drift v)))))
               (mode_idx (n (fs v)) x y z) 1)\<^sup>2))"
    using kick_drift_sums_chi[of E "scale_factor_drift v"]
    by (simp add: scale_factor_drift_values norm2_def rd_def)
  moreover have "time_state.addot (ts (step E v)) =
         adoubledot_staggered E (mp v) (t (ts v)) (dt (ts v)) (a (ts (step E v)))
           (adot_staggered (step E v))
           (fst (snd (kick_drift E (scale_factor_drift v))) / (real (total_gridpoints (fs v)))\<^sup>2)
           (snd (snd (kick_drift E (scale_factor_drift v))) / (real (total_gridpoints (fs v)))\<^sup>2)
           (fst (integrate E (phi (fst (kick_drift E (scale_factor_drift v))))
              (chi (fst (kick_drift E (scale_factor_drift v)))) (a (ts (step E v)))))"
    by (simp add: step_phases phase_frames scale_factor_update_values pow_2_def power2_eq_square)
  ultimately show ?thesis
    by (simp only: Let_def split_def kick_drift_frame)
qed


text \<open>
  C6, as the specification states it, fails: after a step of an expanding universe the
  variable \<^verbatim>\<open>dptdt\<close> is not \<open>- s / B * a powr (- s - 1) * adot\<close>.
\<close>

theorem dptdt_is_not_the_formula:
  "dptdt (step demo_env demo_verlet) \<noteq>
     - rescale_s (mp (step demo_env demo_verlet)) / rescale_B (mp (step demo_env demo_verlet)) *
       pow (a (ts (step demo_env demo_verlet)))
         (- rescale_s (mp (step demo_env demo_verlet)) - 1) *
       time_state.adot (ts (step demo_env demo_verlet))"
  by (simp add: step_phases phase_frames scale_factor_update_values pow_def pow2_def
      demo_env_def demo_verlet_def demo_params_def powr_minus_divide)

lemma initialize_phases: "initialize E v = initialize_kernel (initialize_host E v)"
  by (simp add: initialize_def initialize_kernel_def initialize_host_def Let_def split_def)

lemma initialize_kernel_frame:
  "ts (initialize_kernel v) = ts v" "mp (initialize_kernel v) = mp v"
  "ddptdt (initialize_kernel v) = ddptdt v" "dptdt (initialize_kernel v) = dptdt v"
  by (simp_all add: initialize_kernel_def split_def Let_def)

lemma initialize_host_values:
  "mp (initialize_host E v) = mp v"
  "a (ts (initialize_host E v)) = a (ts v)"
  "time_state.adot (ts (initialize_host E v)) = time_state.adot (ts v)"
  "dptdt (initialize_host E v) = dptdt v"
  "ddptdt (initialize_host E v) =
     - rescale_s (mp v) / rescale_B (mp v) * pow (a (ts v)) (- rescale_s (mp v) - 1) *
       time_state.adot (ts v)"
  by (simp_all add: initialize_host_def split_def Let_def)



text \<open>
  C6, as amended. The variable that holds \<open>- s / B * a powr (- s - 1) * adot\<close> at every step
  boundary, after \<^verbatim>\<open>initialize()\<close> and after every \<^verbatim>\<open>step()\<close>, is \<^verbatim>\<open>ddptdt\<close>, the second
  derivative of the physical time; \<^verbatim>\<open>dptdt\<close> is left alone by \<^verbatim>\<open>initialize()\<close> and advanced in
  \<^verbatim>\<open>step()\<close> by the two half kicks \<open>0.5 * ddptdt * dt\<close>, with \<^verbatim>\<open>ddptdt\<close> before and after the
  step.
\<close>

theorem ddptdt_is_the_formula:
  "ddptdt (initialize E v) =
     - rescale_s (mp v) / rescale_B (mp v) *
       pow (a (ts (initialize E v))) (- rescale_s (mp v) - 1) *
       time_state.adot (ts (initialize E v)) \<and>
   dptdt (initialize E v) = dptdt v \<and>
   ddptdt (step E v) =
     - rescale_s (mp v) / rescale_B (mp v) *
       pow (a (ts (step E v))) (- rescale_s (mp v) - 1) * time_state.adot (ts (step E v)) \<and>
   dptdt (step E v) =
     dptdt v + 0.5 * ddptdt v * dt (ts v) + 0.5 * ddptdt (step E v) * dt (ts v)"
  by (simp add: initialize_phases initialize_kernel_frame initialize_host_values
      step_phases phase_frames scale_factor_update_values)

section \<open>Couplings with a zero coefficient\<close>













section \<open>The snapshot sink\<close>








lemma length_decimal_pos: "0 < length (decimal k)"
  by (subst decimal.simps) simp




lemma hd_snprintf_name: "hd (snprintf_name 32 (c # cs) i) = c"
  by (simp add: snprintf_name_def)

lemma phi_name_not_rho_name: "snprintf_name 32 ''phi'' i \<noteq> snprintf_name 32 ''rho'' j"
proof
  assume "snprintf_name 32 ''phi'' i = snprintf_name 32 ''rho'' j"
  then have "hd (snprintf_name 32 ''phi'' i) = hd (snprintf_name 32 ''rho'' j)" by simp
  then show False by (simp add: hd_snprintf_name)
qed

lemma length_download [simp]: "length (download arr) = elems arr"
  by (simp add: download_def)


lemma write_array_to_file_other:
  "name \<noteq> snprintf_name 32 f i \<Longrightarrow> files (write_array_to_file os arr f i w) name = files w name"
  by (simp add: write_array_to_file_def Let_def split: option.splits)

lemma slice_output_early:
  "physical_time (ts m) * RESCALE_B K < BEGIN_OUTPUT_TIME K \<Longrightarrow>
   slice_output K E os (m, w) = (m, w)"
  by (simp add: slice_output_def)

lemma slice_output_manager_independent:
  "fst (slice_output K E os (m, w)) = fst (slice_output K E os' (m, w'))"
  by (simp add: slice_output_def split_def Let_def)

lemma slice_output_accepted:
  assumes "\<not> physical_time (ts m) * RESCALE_B K < BEGIN_OUTPUT_TIME K"
  shows "ts (fst (slice_output K E os (m, w))) = ts m"
    and "bin_idx (fst (slice_output K E os (m, w))) = bin_idx m + 1"
    and "state (phi (fst (slice_output K E os (m, w)))) = position"
    and "snd (slice_output K E os (m, w)) =
         write_array_to_file os
           \<lparr>elems = NGRIDSIZE K * NGRIDSIZE K * NGRIDSIZE K,
            ptr = launch (NGRIDSIZE K) (NGRIDSIZE K) (NGRIDSIZE K)
              (compute_rho_kernel K (V E)
                 (data (phi (fst (slice_output K E os (m, w)))))
                 (data (chi (fst (slice_output K E os (m, w)))))
                 (data (phidot (fst (slice_output K E os (m, w)))))
                 (data (chidot (fst (slice_output K E os (m, w)))))
                 (data (phigradx (gc (fst (slice_output K E os (m, w))))))
                 (data (chigradx (gc (fst (slice_output K E os (m, w))))))
                 (data (phigrady (gc (fst (slice_output K E os (m, w))))))
                 (data (chigrady (gc (fst (slice_output K E os (m, w))))))
                 (data (phigradz (gc (fst (slice_output K E os (m, w))))))
                 (data (chigradz (gc (fst (slice_output K E os (m, w))))))
                 (a (ts m)) (time_state.adot (ts m))) (fresh_memory E)\<rparr>
           ''rho'' (bin_idx m)
           (write_array_to_file os
              \<lparr>elems = NGRIDSIZE K * NGRIDSIZE K * NGRIDSIZE K,
               ptr = launch (NGRIDSIZE K) (NGRIDSIZE K) (NGRIDSIZE K)
                 (compute_phi_kernel K (data (phi (fst (slice_output K E os (m, w)))))
                    (a (ts m))) (fresh_memory E)\<rparr>
              ''phi'' (bin_idx m) w)"
  using assms
  by (simp_all add: slice_output_def split_def Let_def new_double_array_gpu_def)



lemma stderr_write_array_to_file:
  "stderr (write_array_to_file os arr f i w) =
   stderr w @ (if open_ok os (snprintf_name 32 f i) then []
               else [''write_array_to_file: open failed.''])"
  by (simp add: write_array_to_file_def Let_def split: option.splits)

lemma stdout_write_array_to_file:
  "stdout (write_array_to_file os arr f i w) =
   stdout w @ (if open_ok os (snprintf_name 32 f i) \<and> \<not> malloc_ok os (snprintf_name 32 f i)
               then [''write_array_to_file: malloc fail''] else [])"
  by (simp add: write_array_to_file_def Let_def split: option.splits)

lemma fmt_5d_7: "fmt_5d 7 = ''00007''"
  by (simp add: fmt_5d_def decimal.simps digit_char_def eval_nat_numeral)

lemma demo_manager_after:
  "fst (slice_output demo_config demo_env os (demo_manager, w)) = demo_manager\<lparr>bin_idx := 8\<rparr>"
  by (simp add: slice_output_def split_def Let_def demo_config_def demo_env_def demo_manager_def
      switch_state_def demo_position_field_def)




text \<open>
  C9, as amended. Whatever \<^verbatim>\<open>open\<close>, \<^verbatim>\<open>malloc\<close> and \<^verbatim>\<open>pwrite\<close> do in a snapshot request, the
  manager, the fields and the time state after \<^verbatim>\<open>output()\<close> are what they are after a request
  in which all of them succeed, the time state is the one before the request, and the call
  returns, so that the simulation can go on; a file that cannot be opened is reported by
  \<^verbatim>\<open>perror\<close> on the standard error stream, and the caller is handed nothing.
\<close>

theorem io_outcome_does_not_reach_the_state:
  "fst (slice_output K E os (m, w)) = fst (slice_output K E os' (m, w')) \<and>
   ts (fst (slice_output K E os (m, w))) = ts m \<and>
   (\<not> physical_time (ts m) * RESCALE_B K < BEGIN_OUTPUT_TIME K \<and>
    (\<not> open_ok os (snprintf_name 32 ''phi'' (bin_idx m)) \<or>
     \<not> open_ok os (snprintf_name 32 ''rho'' (bin_idx m))) \<longrightarrow>
    ''write_array_to_file: open failed.'' \<in>
      set (stderr (snd (slice_output K E os (m, w)))))"
proof (intro conjI impI)
  show "fst (slice_output K E os (m, w)) = fst (slice_output K E os' (m, w'))"
    by (rule slice_output_manager_independent)
  show "ts (fst (slice_output K E os (m, w))) = ts m"
    by (simp add: slice_output_def split_def Let_def)
  assume "\<not> physical_time (ts m) * RESCALE_B K < BEGIN_OUTPUT_TIME K \<and>
    (\<not> open_ok os (snprintf_name 32 ''phi'' (bin_idx m)) \<or>
     \<not> open_ok os (snprintf_name 32 ''rho'' (bin_idx m)))"
  then show "''write_array_to_file: open failed.'' \<in>
      set (stderr (snd (slice_output K E os (m, w))))"
    by (auto simp: slice_output_accepted(4) stderr_write_array_to_file)
qed

theorem io_outcome_does_not_reach_the_state_witness:
  "\<not> physical_time (ts demo_manager) * RESCALE_B demo_config < BEGIN_OUTPUT_TIME demo_config \<and>
   \<not> open_ok io_open_fails (snprintf_name 32 ''phi'' (bin_idx demo_manager)) \<and>
   fst (slice_output demo_config demo_env io_open_fails (demo_manager, demo_world)) =
     fst (slice_output demo_config demo_env io_ok (demo_manager, demo_world)) \<and>
   ts (fst (slice_output demo_config demo_env io_open_fails (demo_manager, demo_world))) =
     ts demo_manager \<and>
   ''write_array_to_file: open failed.'' \<in>
     set (stderr (snd (slice_output demo_config demo_env io_open_fails
       (demo_manager, demo_world))))"
proof -
  have h: "\<not> physical_time (ts demo_manager) * RESCALE_B demo_config
             < BEGIN_OUTPUT_TIME demo_config"
    "\<not> open_ok io_open_fails (snprintf_name 32 ''phi'' (bin_idx demo_manager))"
    by (simp_all add: demo_manager_def demo_config_def io_open_fails_def)
  note T = io_outcome_does_not_reach_the_state[of demo_config demo_env io_open_fails
      demo_manager demo_world io_ok demo_world]
  from h T show ?thesis by blast
qed

text \<open>
  C9, as the specification states it, fails: when \<^verbatim>\<open>open\<close> fails, and when \<^verbatim>\<open>pwrite\<close> fails,
  the caller receives exactly what it receives from a request that succeeds, and after the
  failed \<^verbatim>\<open>pwrite\<close>, which leaves the file empty, neither stream has a line more.
\<close>

theorem io_failure_is_not_reported:
  "\<not> open_ok io_open_fails (snprintf_name 32 ''phi'' (bin_idx demo_manager)) \<and>
   fst (slice_output demo_config demo_env io_open_fails (demo_manager, demo_world)) =
     fst (slice_output demo_config demo_env io_ok (demo_manager, demo_world)) \<and>
   pwrite_count io_write_fails (snprintf_name 32 ''phi'' (bin_idx demo_manager)) = None \<and>
   fst (slice_output demo_config demo_env io_write_fails (demo_manager, demo_world)) =
     fst (slice_output demo_config demo_env io_ok (demo_manager, demo_world)) \<and>
   stderr (snd (slice_output demo_config demo_env io_write_fails (demo_manager, demo_world))) =
     stderr demo_world \<and>
   stdout (snd (slice_output demo_config demo_env io_write_fails (demo_manager, demo_world))) =
     stdout demo_world \<and>
   files (snd (slice_output demo_config demo_env io_write_fails (demo_manager, demo_world)))
     ''phi_00007.bin'' = Some []"
proof -
  have h: "\<not> physical_time (ts demo_manager) * RESCALE_B demo_config
             < BEGIN_OUTPUT_TIME demo_config"
    by (simp add: demo_manager_def demo_config_def)
  have name: "snprintf_name 32 ''phi'' (bin_idx demo_manager) = ''phi_00007.bin''"
    by (simp add: snprintf_name_def demo_manager_def fmt_5d_7)
  have "files (snd (slice_output demo_config demo_env io_write_fails (demo_manager, demo_world)))
     (snprintf_name 32 ''phi'' (bin_idx demo_manager)) = Some []"
    by (simp add: slice_output_accepted(4)[OF h] write_array_to_file_other
        phi_name_not_rho_name)
       (simp add: write_array_to_file_def io_write_fails_def Let_def)
  then show ?thesis
    by (simp add: demo_manager_after name slice_output_accepted(4)[OF h]
        stderr_write_array_to_file stdout_write_array_to_file)
       (simp add: io_open_fails_def io_write_fails_def)
qed

text \<open>
  C10. A call of \<^verbatim>\<open>output()\<close> while \<^verbatim>\<open>ts.physical_time * RESCALE_B\<close> is below
  \<^verbatim>\<open>BEGIN_OUTPUT_TIME\<close> returns at once and changes nothing: no file is written, no stream
  gets a line, the gradient computer and the fields are as they were, and \<^verbatim>\<open>bin_idx\<close> keeps
  its value for the next snapshot that is accepted.
\<close>

theorem output_before_begin_is_a_no_op:
  "physical_time (ts m) * RESCALE_B K < BEGIN_OUTPUT_TIME K \<Longrightarrow>
   slice_output K E os (m, w) = (m, w)"
  by (simp add: slice_output_def)

theorem output_before_begin_is_a_no_op_witness:
  "physical_time (ts demo_manager) * RESCALE_B (demo_config\<lparr>BEGIN_OUTPUT_TIME := 10\<rparr>)
     < BEGIN_OUTPUT_TIME (demo_config\<lparr>BEGIN_OUTPUT_TIME := 10\<rparr>) \<and>
   slice_output (demo_config\<lparr>BEGIN_OUTPUT_TIME := 10\<rparr>) demo_env io_ok
     (demo_manager, demo_world) = (demo_manager, demo_world) \<and>
   bin_idx (fst (slice_output (demo_config\<lparr>BEGIN_OUTPUT_TIME := 10\<rparr>) demo_env io_ok
     (demo_manager, demo_world))) = 7"
proof -
  have h: "physical_time (ts demo_manager) * RESCALE_B (demo_config\<lparr>BEGIN_OUTPUT_TIME := 10\<rparr>)
     < BEGIN_OUTPUT_TIME (demo_config\<lparr>BEGIN_OUTPUT_TIME := 10\<rparr>)"
    by (simp add: demo_manager_def demo_config_def)
  from h output_before_begin_is_a_no_op[OF h, of demo_env io_ok demo_world]
  show ?thesis by (simp add: demo_manager_def)
qed

end
